theory Spec2Isabelle
  imports Main "HOL-Library.Sublist"
begin

section \<open>The syntax tree of langx\<close>

text \<open>
  The parser package declares one Go struct per grammar rule. Each struct is a datatype
  here, with one selector per field, named \<open>Struct_Field\<close>. A pointer field that the
  grammar may leave unset (an optional group, or one arm of an alternation) is an
  \<open>option\<close>, \<open>None\<close> being the nil pointer. A pointer field that every successful
  parse fills (a plain \<open>@@\<close> capture) and the elements of a slice of pointers are
  modelled by the pointee itself.
\<close>

datatype Position = Position (Filename: string) (Offset: int) (Line: int) (Column: int)

text \<open>
  Modelled from the spec: the declaration of the type \<open>Modifiers\<close> is not among the given
  sources. The specification describes it as zero or more of the modifier words, duplicates
  permitted; it is captured by \<open>@Modifier*\<close>, which appends one word per token.
\<close>

type_synonym Modifiers = "string list"

text \<open>
  Modelled from the spec: the declarations of the expression-tree node types (Expr, Unary,
  Literal, Reference, ReferenceNext, Call, ArrayLiteral, DictOrSetLiteral,
  DictOrSetEntryLiteral, Terminal) are not among the given sources; only their names occur,
  in the fields of the structs below and in the visitor interface. An expression-tree node
  is modelled by its kind, its position, its text and the ordered list of its children,
  which are expression-tree nodes again. A field of type \<open>*Expr\<close> or \<open>*Reference\<close> holds
  such a node.
\<close>

datatype ExprKind = KExpr | KUnary | KLiteral | KReference | KReferenceNext
  | KCall | KArrayLiteral | KDictOrSetLiteral | KDictOrSetEntryLiteral | KTerminal

datatype ExprNode = ExprNode (ExprNode_Kind: ExprKind) (ExprNode_Pos: Position)
  (ExprNode_Text: string) (ExprNode_Children: "ExprNode list")

datatype TypeParamDecl = TypeParamDecl (TypeParamDecl_Pos: Position)
  (TypeParamDecl_Name: string) (TypeParamDecl_Constraints: "ExprNode list")

datatype TypeDecl = TypeDecl (TypeDecl_Pos: Position) (TypeDecl_Type: string)
  (TypeDecl_TypeParameter: "TypeParamDecl list")

datatype Parameters = Parameters (Parameters_Pos: Position) (Parameters_Names: "string list")
  (Parameters_Type: ExprNode)

datatype VarDeclAsgn = VarDeclAsgn (VarDeclAsgn_Pos: Position) (VarDeclAsgn_Name: string)
  (VarDeclAsgn_Type: "ExprNode option") (VarDeclAsgn_Default: "ExprNode option")

datatype VarDecl = VarDecl (VarDecl_Pos: Position) (VarDecl_Vars: "VarDeclAsgn list")

datatype ImportDecl = ImportDecl (ImportDecl_Pos: Position) (ImportDecl_Alias: string)
  (ImportDecl_Import: string)

datatype CaseDecl = CaseDecl (CaseDecl_Pos: Position) (CaseDecl_Name: string)
  (CaseDecl_Type: "TypeDecl option")

datatype EnumCase = EnumCase (EnumCase_Pos: Position) (EnumCase_Case: string)
  (EnumCase_Var: string)

datatype CaseSelect = CaseSelect (CaseSelect_Pos: Position)
  (CaseSelect_EnumCase: "EnumCase option") (CaseSelect_ExprCase: "ExprNode option")

datatype ReturnStmt = ReturnStmt (ReturnStmt_Pos: Position)
  (ReturnStmt_Value: "ExprNode option")

text \<open>
  Classes, enums, functions, blocks and statements refer to each other: a class member may
  be a function, whose body is a block of statements, one of which may declare a class.
  Every such cycle passes through \<open>Stmt\<close>. The structs on the cycle are therefore declared
  over the type of the statements they contain, \<open>Stmt\<close> is declared by recursion through
  them, and the struct types of the source are their instances at \<open>Stmt\<close>.
\<close>

datatype 'stmt BlockOf = Block (Block_Pos: Position) (Block_Statements: "'stmt list")

datatype 'stmt InitialiserDeclOf = InitialiserDecl (InitialiserDecl_Pos: Position)
  (InitialiserDecl_Parameters: "Parameters list") (InitialiserDecl_Throws: bool)
  (InitialiserDecl_Body: "'stmt BlockOf")

datatype 'stmt FuncDeclOf = FuncDecl (FuncDecl_Pos: Position) (FuncDecl_Name: string)
  (FuncDecl_Parameters: "Parameters list") (FuncDecl_Throws: bool)
  (FuncDecl_Return: "ExprNode option") (FuncDecl_Body: "'stmt BlockOf")

datatype 'stmt ClassDeclOf = ClassDecl (ClassDecl_Pos: Position) (ClassDecl_Type: TypeDecl)
    (ClassDecl_Members: "'stmt ClassMemberOf list")
  and 'stmt ClassMemberOf = ClassMember (ClassMember_Pos: Position)
    (ClassMember_Modifiers: Modifiers)
    (ClassMember_VarDecl: "VarDecl option") (ClassMember_FuncDecl: "'stmt FuncDeclOf option")
    (ClassMember_ClassDecl: "'stmt ClassDeclOf option")
    (ClassMember_EnumDecl: "'stmt EnumDeclOf option")
    (ClassMember_InitialiserDecl: "'stmt InitialiserDeclOf option")
  and 'stmt EnumDeclOf = EnumDecl (EnumDecl_Pos: Position) (EnumDecl_Type: TypeDecl)
    (EnumDecl_Members: "'stmt EnumMemberOf list")
  and 'stmt EnumMemberOf = EnumMember (EnumMember_Pos: Position)
    (EnumMember_Modifiers: Modifiers)
    (EnumMember_CaseDecl: "CaseDecl option") (EnumMember_VarDecl: "VarDecl option")
    (EnumMember_FuncDecl: "'stmt FuncDeclOf option")
    (EnumMember_ClassDecl: "'stmt ClassDeclOf option")
    (EnumMember_EnumDecl: "'stmt EnumDeclOf option")
    (EnumMember_InitialiserDecl: "'stmt InitialiserDeclOf option")

datatype 'stmt IfStmtOf = IfStmt (IfStmt_Pos: Position) (IfStmt_Condition: ExprNode)
  (IfStmt_Main: "'stmt BlockOf") (IfStmt_Else: "'stmt BlockOf option")

datatype 'stmt ForStmtOf = ForStmt (ForStmt_Pos: Position) (ForStmt_Target: ExprNode)
  (ForStmt_Source: ExprNode) (ForStmt_Body: "'stmt BlockOf")

datatype 'stmt CaseStmtOf = CaseStmt (CaseStmt_Pos: Position) (CaseStmt_Default: bool)
  (CaseStmt_Case: "CaseSelect option") (CaseStmt_Body: "'stmt list")

datatype 'stmt SwitchStmtOf = SwitchStmt (SwitchStmt_Pos: Position)
  (SwitchStmt_Target: ExprNode) (SwitchStmt_Cases: "'stmt CaseStmtOf list")

datatype Stmt = Stmt (Stmt_Pos: Position) (Stmt_Return: "ReturnStmt option")
  (Stmt_If: "Stmt IfStmtOf option") (Stmt_For: "Stmt ForStmtOf option")
  (Stmt_Switch: "Stmt SwitchStmtOf option") (Stmt_Block: "Stmt BlockOf option")
  (Stmt_VarDecl: "VarDecl option") (Stmt_FuncDecl: "Stmt FuncDeclOf option")
  (Stmt_ClassDecl: "Stmt ClassDeclOf option") (Stmt_EnumDecl: "Stmt EnumDeclOf option")
  (Stmt_Expression: "ExprNode option")

type_synonym Block = "Stmt BlockOf"
type_synonym InitialiserDecl = "Stmt InitialiserDeclOf"
type_synonym FuncDecl = "Stmt FuncDeclOf"
type_synonym ClassDecl = "Stmt ClassDeclOf"
type_synonym ClassMember = "Stmt ClassMemberOf"
type_synonym EnumDecl = "Stmt EnumDeclOf"
type_synonym EnumMember = "Stmt EnumMemberOf"
type_synonym IfStmt = "Stmt IfStmtOf"
type_synonym ForStmt = "Stmt ForStmtOf"
type_synonym CaseStmt = "Stmt CaseStmtOf"
type_synonym SwitchStmt = "Stmt SwitchStmtOf"

datatype RootDecl = RootDecl (RootDecl_Pos: Position) (RootDecl_Modifiers: Modifiers)
  (RootDecl_Class: "ClassDecl option") (RootDecl_Import: "ImportDecl option")
  (RootDecl_Enum: "EnumDecl option") (RootDecl_Var: "VarDecl option")
  (RootDecl_Func: "FuncDecl option")

datatype AST = AST (AST_Pos: Position) (AST_Declarations: "RootDecl list")

section \<open>Declarations behind the union nodes\<close>

text \<open>
  The Go interface \<open>Decl\<close> is implemented (method \<open>decl()\<close>) by ImportDecl, EnumDecl,
  CaseDecl, ClassDecl, InitialiserDecl, VarDecl and FuncDecl. A resolver \<open>Decl()\<close> either
  returns one of them or panics.
\<close>

datatype Decl =
    D_ImportDecl ImportDecl
  | D_EnumDecl EnumDecl
  | D_CaseDecl CaseDecl
  | D_ClassDecl ClassDecl
  | D_InitialiserDecl InitialiserDecl
  | D_VarDecl VarDecl
  | D_FuncDecl FuncDecl

datatype 'a resolved = PanicWith string | Returned 'a

text \<open>\<open>func (r *RootDecl) Decl() Decl\<close>: a switch over the five arms, in this order.\<close>

definition RootDecl_Decl :: "RootDecl \<Rightarrow> Decl resolved" where
  "RootDecl_Decl r =
     (if RootDecl_Class r \<noteq> None then Returned (D_ClassDecl (the (RootDecl_Class r)))
      else if RootDecl_Import r \<noteq> None then Returned (D_ImportDecl (the (RootDecl_Import r)))
      else if RootDecl_Enum r \<noteq> None then Returned (D_EnumDecl (the (RootDecl_Enum r)))
      else if RootDecl_Var r \<noteq> None then Returned (D_VarDecl (the (RootDecl_Var r)))
      else if RootDecl_Func r \<noteq> None then Returned (D_FuncDecl (the (RootDecl_Func r)))
      else PanicWith ''?'')"

text \<open>
  \<open>func (e *EnumMember) Decl() Decl\<close>: the switch has the cases CaseDecl, VarDecl, FuncDecl,
  ClassDecl, InitialiserDecl and a default that panics. It has no case for the field
  \<open>EnumDecl\<close>.
\<close>

definition EnumMember_Decl :: "EnumMember \<Rightarrow> Decl resolved" where
  "EnumMember_Decl e =
     (if EnumMember_CaseDecl e \<noteq> None then Returned (D_CaseDecl (the (EnumMember_CaseDecl e)))
      else if EnumMember_VarDecl e \<noteq> None then Returned (D_VarDecl (the (EnumMember_VarDecl e)))
      else if EnumMember_FuncDecl e \<noteq> None then Returned (D_FuncDecl (the (EnumMember_FuncDecl e)))
      else if EnumMember_ClassDecl e \<noteq> None
        then Returned (D_ClassDecl (the (EnumMember_ClassDecl e)))
      else if EnumMember_InitialiserDecl e \<noteq> None
        then Returned (D_InitialiserDecl (the (EnumMember_InitialiserDecl e)))
      else PanicWith ''??'')"

text \<open>\<open>func (c *ClassMember) Decl() Decl\<close>: all five arms have a case.\<close>

definition ClassMember_Decl :: "ClassMember \<Rightarrow> Decl resolved" where
  "ClassMember_Decl c =
     (if ClassMember_VarDecl c \<noteq> None then Returned (D_VarDecl (the (ClassMember_VarDecl c)))
      else if ClassMember_FuncDecl c \<noteq> None
        then Returned (D_FuncDecl (the (ClassMember_FuncDecl c)))
      else if ClassMember_ClassDecl c \<noteq> None
        then Returned (D_ClassDecl (the (ClassMember_ClassDecl c)))
      else if ClassMember_EnumDecl c \<noteq> None
        then Returned (D_EnumDecl (the (ClassMember_EnumDecl c)))
      else if ClassMember_InitialiserDecl c \<noteq> None
        then Returned (D_InitialiserDecl (the (ClassMember_InitialiserDecl c)))
      else PanicWith ''??'')"

text \<open>The populated arms of an enum member, in field order (used to state properties).\<close>

definition populated :: "'a option \<Rightarrow> 'a list" where
  "populated p = (case p of None \<Rightarrow> [] | Some x \<Rightarrow> [x])"

definition EnumMember_arms :: "EnumMember \<Rightarrow> Decl list" where
  "EnumMember_arms e =
     map D_CaseDecl (populated (EnumMember_CaseDecl e)) @
     map D_VarDecl (populated (EnumMember_VarDecl e)) @
     map D_FuncDecl (populated (EnumMember_FuncDecl e)) @
     map D_ClassDecl (populated (EnumMember_ClassDecl e)) @
     map D_EnumDecl (populated (EnumMember_EnumDecl e)) @
     map D_InitialiserDecl (populated (EnumMember_InitialiserDecl e))"

section \<open>The raw traversal\<close>

subsection \<open>Errors, outcomes and continuations\<close>

text \<open>
  Go errors are compared by identity. \<open>TerminateRecursion\<close> is the package-level sentinel;
  every other error value is an \<open>Err\<close>.
\<close>

datatype error = TerminateRecursion | Err string

text \<open>
  A visitor has side effects; they are a state \<open>'s\<close> that is passed along. A call either
  returns an error value (\<open>None\<close> is Go's nil) or panics; both leave a state behind.
\<close>

datatype 's res = Panic 's | Ret "error option" 's

text \<open>
  The value handed to a visitor function is a \<open>Node\<close> interface value. Its dynamic type is
  the receiver type of the accept method that built it: a pointer for the methods declared
  on \<open>*T\<close> (the pointer may be nil), the struct itself for the methods declared on \<open>T\<close>.
\<close>

datatype Node =
    N_AST "AST option"
  | N_ArrayLiteral ExprNode
  | N_Block Block
  | N_Call ExprNode
  | N_CaseDecl "CaseDecl option"
  | N_CaseSelect CaseSelect
  | N_CaseStmt CaseStmt
  | N_ClassDecl "ClassDecl option"
  | N_ClassMember "ClassMember option"
  | N_DictOrSetEntryLiteral ExprNode
  | N_DictOrSetLiteral ExprNode
  | N_EnumCase EnumCase
  | N_EnumDecl "EnumDecl option"
  | N_EnumMember "EnumMember option"
  | N_Expr "ExprNode option"
  | N_ForStmt ForStmt
  | N_FuncDecl "FuncDecl option"
  | N_IfStmt IfStmt
  | N_ImportDecl "ImportDecl option"
  | N_InitialiserDecl "InitialiserDecl option"
  | N_Literal "ExprNode option"
  | N_Parameters Parameters
  | N_Reference "ExprNode option"
  | N_ReferenceNext "ExprNode option"
  | N_ReturnStmt ReturnStmt
  | N_RootDecl "RootDecl option"
  | N_Stmt Stmt
  | N_SwitchStmt SwitchStmt
  | N_Terminal ExprNode
  | N_TypeDecl TypeDecl
  | N_TypeParamDecl TypeParamDecl
  | N_Unary "ExprNode option"
  | N_VarDecl "VarDecl option"
  | N_VarDeclAsgn VarDeclAsgn

type_synonym 's walk = "'s \<Rightarrow> 's res"

text \<open>\<open>type Next func(err error) error\<close> and \<open>type VisitorFunc func(node Node, next Next) error\<close>.\<close>

type_synonym 's Next = "error option \<Rightarrow> 's walk"
type_synonym 's VisitorFunc = "Node \<Rightarrow> 's Next \<Rightarrow> 's walk"

text \<open>
  The argument of \<open>VisitFunc\<close> is an interface value: the nil interface, or a dynamic value
  together with its \<open>accept\<close> method.
\<close>

datatype 's NodeValue = NilInterface | Dynamic "'s VisitorFunc \<Rightarrow> 's walk"

text \<open>
  \<^verbatim>\<open>func VisitFunc(node Node, visit VisitorFunc) error {
      if node == nil { return nil }
      return node.accept(visit) }\<close>
\<close>

definition VisitFunc :: "'s NodeValue \<Rightarrow> 's VisitorFunc \<Rightarrow> 's walk" where
  "VisitFunc node visit =
     (case node of NilInterface \<Rightarrow> Ret None | Dynamic accept \<Rightarrow> accept visit)"

text \<open>
  A field of type \<open>*T\<close> whose accept method is declared on the value type \<open>T\<close>: converting the
  pointer to \<open>Node\<close> gives an interface value of dynamic type \<open>*T\<close>, which is not the nil
  interface even when the pointer is nil. Calling \<open>accept\<close> on it dereferences the pointer;
  on a nil pointer the Go runtime panics (value method called using nil pointer).
\<close>

definition throughPointer :: "('s VisitorFunc \<Rightarrow> 's walk) option \<Rightarrow> 's NodeValue" where
  "throughPointer p =
     Dynamic (case p of None \<Rightarrow> (\<lambda>visit. Panic) | Some accept \<Rightarrow> accept)"

text \<open>The opening of every continuation: \<^verbatim>\<open>if err != nil { return err }\<close>, then the body.\<close>

definition ifNoError :: "'s walk \<Rightarrow> 's Next" where
  "ifNoError body err = (case err of Some e \<Rightarrow> Ret (Some e) | None \<Rightarrow> body)"

text \<open>\<^verbatim>\<open>if err = w; err != nil { return err }\<close>, then the rest.\<close>

definition thenDo :: "'s walk \<Rightarrow> 's walk \<Rightarrow> 's walk" where
  "thenDo w rest s = (case w s of Ret None s' \<Rightarrow> rest s' | r \<Rightarrow> r)"

text \<open>A \<open>for ... range\<close> loop whose body returns at the first error; \<open>return nil\<close> after it.\<close>

fun forEach :: "'s walk list \<Rightarrow> 's walk" where
  "forEach [] = Ret None"
| "forEach (w # ws) = thenDo w (forEach ws)"

text \<open>
  A switch over the arms of a union node, each case testing one pointer field against nil,
  the default panicking: the first populated arm, converted to \<open>Node\<close>.
\<close>

fun firstArm :: "('s VisitorFunc \<Rightarrow> 's walk) option list \<Rightarrow> 's NodeValue resolved" where
  "firstArm [] = PanicWith ''??''"
| "firstArm (None # arms) = firstArm arms"
| "firstArm (Some accept # arms) = Returned (Dynamic accept)"

definition visitResolved :: "'s NodeValue resolved \<Rightarrow> 's VisitorFunc \<Rightarrow> 's walk" where
  "visitResolved d visit =
     (case d of PanicWith msg \<Rightarrow> Panic | Returned node \<Rightarrow> VisitFunc node visit)"

subsection \<open>Expression-tree nodes\<close>

text \<open>
  Modelled from the spec: the accept methods of the expression-tree node types are not among
  the given sources. The type switch of \<open>Visit\<close> gives the dynamic type under which each kind
  reaches the visitor: pointers for Expr, Unary, Literal, Reference and ReferenceNext, values
  for the other five. According to the specification every accept method hands the node and
  a continuation to the visitor function; the continuation returns a non-nil error
  unchanged and otherwise visits the children in their declared order, stopping at the first
  error. A nil \<open>*Expr\<close> or \<open>*Reference\<close> has a pointer receiver, so the visitor function is
  called with the nil pointer; a continuation that is asked to go on from a nil receiver
  reads a field through nil and panics.
\<close>

definition nodeOfExpr :: "ExprNode \<Rightarrow> Node" where
  "nodeOfExpr e =
     (case ExprNode_Kind e of
        KExpr \<Rightarrow> N_Expr (Some e)
      | KUnary \<Rightarrow> N_Unary (Some e)
      | KLiteral \<Rightarrow> N_Literal (Some e)
      | KReference \<Rightarrow> N_Reference (Some e)
      | KReferenceNext \<Rightarrow> N_ReferenceNext (Some e)
      | KCall \<Rightarrow> N_Call e
      | KArrayLiteral \<Rightarrow> N_ArrayLiteral e
      | KDictOrSetLiteral \<Rightarrow> N_DictOrSetLiteral e
      | KDictOrSetEntryLiteral \<Rightarrow> N_DictOrSetEntryLiteral e
      | KTerminal \<Rightarrow> N_Terminal e)"

primrec ExprNode_accept :: "ExprNode \<Rightarrow> 's VisitorFunc \<Rightarrow> 's walk" where
  "ExprNode_accept (ExprNode kind pos text children) = (\<lambda>visit.
     visit (nodeOfExpr (ExprNode kind pos text children))
       (ifNoError (forEach (map (\<lambda>c. VisitFunc (Dynamic (ExprNode_accept c)) visit) children))))"

definition Expr_accept :: "ExprNode option \<Rightarrow> 's VisitorFunc \<Rightarrow> 's walk" where
  "Expr_accept p visit =
     (case p of None \<Rightarrow> visit (N_Expr None) (ifNoError Panic)
      | Some e \<Rightarrow> ExprNode_accept e visit)"

definition Reference_accept :: "ExprNode option \<Rightarrow> 's VisitorFunc \<Rightarrow> 's walk" where
  "Reference_accept p visit =
     (case p of None \<Rightarrow> visit (N_Reference None) (ifNoError Panic)
      | Some e \<Rightarrow> ExprNode_accept e visit)"

subsection \<open>The accept methods\<close>

text \<open>
  One definition per accept method of the source, in the shape
  \<^verbatim>\<open>return visitor(x, func(err error) error { if err != nil { return err }; ... })\<close>.
  Each \<open>VisitFunc\<close> call of the source is a \<open>VisitFunc\<close> call here; its argument says how the
  field becomes a \<open>Node\<close>: \<open>Dynamic\<close> for a pointer whose accept method has a pointer receiver,
  \<open>throughPointer\<close> for a pointer whose accept method has a value receiver.
\<close>

definition ImportDecl_accept :: "ImportDecl \<Rightarrow> 's VisitorFunc \<Rightarrow> 's walk" where
  "ImportDecl_accept i visit = visit (N_ImportDecl (Some i)) (\<lambda>err. Ret err)"

definition EnumCase_accept :: "EnumCase \<Rightarrow> 's VisitorFunc \<Rightarrow> 's walk" where
  "EnumCase_accept e visit = visit (N_EnumCase e) (\<lambda>err. Ret err)"

definition TypeParamDecl_accept :: "TypeParamDecl \<Rightarrow> 's VisitorFunc \<Rightarrow> 's walk" where
  "TypeParamDecl_accept t visit =
     visit (N_TypeParamDecl t)
       (ifNoError
         (forEach (map (\<lambda>c. VisitFunc (Dynamic (Reference_accept (Some c))) visit)
                    (TypeParamDecl_Constraints t))))"

definition TypeDecl_accept :: "TypeDecl \<Rightarrow> 's VisitorFunc \<Rightarrow> 's walk" where
  "TypeDecl_accept t visit =
     visit (N_TypeDecl t)
       (ifNoError
         (forEach (map (\<lambda>tp. VisitFunc (throughPointer (Some (TypeParamDecl_accept tp))) visit)
                    (TypeDecl_TypeParameter t))))"

definition Parameters_accept :: "Parameters \<Rightarrow> 's VisitorFunc \<Rightarrow> 's walk" where
  "Parameters_accept p visit =
     visit (N_Parameters p)
       (ifNoError (VisitFunc (Dynamic (Reference_accept (Some (Parameters_Type p)))) visit))"

definition VarDeclAsgn_accept :: "VarDeclAsgn \<Rightarrow> 's VisitorFunc \<Rightarrow> 's walk" where
  "VarDeclAsgn_accept v visit =
     visit (N_VarDeclAsgn v)
       (ifNoError
         (thenDo (VisitFunc (Dynamic (Reference_accept (VarDeclAsgn_Type v))) visit)
                 (VisitFunc (Dynamic (Expr_accept (VarDeclAsgn_Default v))) visit)))"

definition VarDecl_accept :: "VarDecl \<Rightarrow> 's VisitorFunc \<Rightarrow> 's walk" where
  "VarDecl_accept v visit =
     visit (N_VarDecl (Some v))
       (ifNoError
         (forEach (map (\<lambda>a. VisitFunc (throughPointer (Some (VarDeclAsgn_accept a))) visit)
                    (VarDecl_Vars v))))"

definition CaseDecl_accept :: "CaseDecl \<Rightarrow> 's VisitorFunc \<Rightarrow> 's walk" where
  "CaseDecl_accept c visit =
     visit (N_CaseDecl (Some c))
       (ifNoError
         (VisitFunc (throughPointer (map_option TypeDecl_accept (CaseDecl_Type c))) visit))"

definition CaseSelect_accept :: "CaseSelect \<Rightarrow> 's VisitorFunc \<Rightarrow> 's walk" where
  "CaseSelect_accept c visit =
     visit (N_CaseSelect c)
       (ifNoError
         (thenDo
           (VisitFunc (throughPointer (map_option EnumCase_accept (CaseSelect_EnumCase c))) visit)
           (VisitFunc (Dynamic (Expr_accept (CaseSelect_ExprCase c))) visit)))"

definition ReturnStmt_accept :: "ReturnStmt \<Rightarrow> 's VisitorFunc \<Rightarrow> 's walk" where
  "ReturnStmt_accept r visit =
     visit (N_ReturnStmt r)
       (ifNoError (VisitFunc (Dynamic (Expr_accept (ReturnStmt_Value r))) visit))"

text \<open>
  The three member and statement unions resolve their populated arm first:
  \<open>ClassMember.accept\<close> and \<open>EnumMember.accept\<close> visit the result of \<open>Decl()\<close>, and
  \<open>Stmt.accept\<close> has the switch inline. The arms are listed in the order of the switch;
  the list for \<open>EnumMember\<close> is the one of \<open>EnumMember.Decl\<close>, without the field \<open>EnumDecl\<close>.
\<close>

function ClassDecl_accept :: "ClassDecl \<Rightarrow> 's VisitorFunc \<Rightarrow> 's walk"
  and ClassMember_accept :: "ClassMember \<Rightarrow> 's VisitorFunc \<Rightarrow> 's walk"
  and EnumDecl_accept :: "EnumDecl \<Rightarrow> 's VisitorFunc \<Rightarrow> 's walk"
  and EnumMember_accept :: "EnumMember \<Rightarrow> 's VisitorFunc \<Rightarrow> 's walk"
  and InitialiserDecl_accept :: "InitialiserDecl \<Rightarrow> 's VisitorFunc \<Rightarrow> 's walk"
  and FuncDecl_accept :: "FuncDecl \<Rightarrow> 's VisitorFunc \<Rightarrow> 's walk"
  and Block_accept :: "Block \<Rightarrow> 's VisitorFunc \<Rightarrow> 's walk"
  and Stmt_accept :: "Stmt \<Rightarrow> 's VisitorFunc \<Rightarrow> 's walk"
  and IfStmt_accept :: "IfStmt \<Rightarrow> 's VisitorFunc \<Rightarrow> 's walk"
  and ForStmt_accept :: "ForStmt \<Rightarrow> 's VisitorFunc \<Rightarrow> 's walk"
  and SwitchStmt_accept :: "SwitchStmt \<Rightarrow> 's VisitorFunc \<Rightarrow> 's walk"
  and CaseStmt_accept :: "CaseStmt \<Rightarrow> 's VisitorFunc \<Rightarrow> 's walk"
where
  "ClassDecl_accept (ClassDecl pos ty members) = (\<lambda>visit.
     visit (N_ClassDecl (Some (ClassDecl pos ty members)))
       (ifNoError
         (thenDo (VisitFunc (throughPointer (Some (TypeDecl_accept ty))) visit)
                 (forEach (map (\<lambda>member. VisitFunc (Dynamic (ClassMember_accept member)) visit)
                            members)))))"
| "ClassMember_accept (ClassMember pos mods var func cls enum ini) = (\<lambda>visit.
     visit (N_ClassMember (Some (ClassMember pos mods var func cls enum ini)))
       (ifNoError
         (visitResolved
           (firstArm [map_option VarDecl_accept var, map_option FuncDecl_accept func,
                      map_option ClassDecl_accept cls, map_option EnumDecl_accept enum,
                      map_option InitialiserDecl_accept ini])
           visit)))"
| "EnumDecl_accept (EnumDecl pos ty members) = (\<lambda>visit.
     visit (N_EnumDecl (Some (EnumDecl pos ty members)))
       (ifNoError
         (thenDo (VisitFunc (throughPointer (Some (TypeDecl_accept ty))) visit)
                 (forEach (map (\<lambda>m. VisitFunc (Dynamic (EnumMember_accept m)) visit)
                            members)))))"
| "EnumMember_accept (EnumMember pos mods cas var func cls enum ini) = (\<lambda>visit.
     visit (N_EnumMember (Some (EnumMember pos mods cas var func cls enum ini)))
       (ifNoError
         (visitResolved
           (firstArm [map_option CaseDecl_accept cas, map_option VarDecl_accept var,
                      map_option FuncDecl_accept func, map_option ClassDecl_accept cls,
                      map_option InitialiserDecl_accept ini])
           visit)))"
| "InitialiserDecl_accept (InitialiserDecl pos params throws body) = (\<lambda>visit.
     visit (N_InitialiserDecl (Some (InitialiserDecl pos params throws body)))
       (ifNoError
         (thenDo (forEach (map (\<lambda>p. VisitFunc (throughPointer (Some (Parameters_accept p))) visit)
                            params))
                 (VisitFunc (throughPointer (Some (Block_accept body))) visit))))"
| "FuncDecl_accept (FuncDecl pos name params throws ret body) = (\<lambda>visit.
     visit (N_FuncDecl (Some (FuncDecl pos name params throws ret body)))
       (ifNoError
         (thenDo (forEach (map (\<lambda>p. VisitFunc (throughPointer (Some (Parameters_accept p))) visit)
                            params))
         (thenDo (VisitFunc (Dynamic (Reference_accept ret)) visit)
                 (VisitFunc (throughPointer (Some (Block_accept body))) visit)))))"
| "Block_accept (Block pos stmts) = (\<lambda>visit.
     visit (N_Block (Block pos stmts))
       (ifNoError
         (forEach (map (\<lambda>stmt. VisitFunc (throughPointer (Some (Stmt_accept stmt))) visit)
                    stmts))))"
| "Stmt_accept (Stmt pos ret ifs for sw blk var func cls enum expr) = (\<lambda>visit.
     visit (N_Stmt (Stmt pos ret ifs for sw blk var func cls enum expr))
       (ifNoError
         (visitResolved
           (firstArm [map_option ReturnStmt_accept ret, map_option IfStmt_accept ifs,
                      map_option ForStmt_accept for, map_option SwitchStmt_accept sw,
                      map_option Block_accept blk, map_option VarDecl_accept var,
                      map_option FuncDecl_accept func, map_option ClassDecl_accept cls,
                      map_option EnumDecl_accept enum,
                      map_option (\<lambda>e. Expr_accept (Some e)) expr])
           visit)))"
| "IfStmt_accept (IfStmt pos cond main els) = (\<lambda>visit.
     visit (N_IfStmt (IfStmt pos cond main els))
       (ifNoError
         (thenDo (VisitFunc (Dynamic (Expr_accept (Some cond))) visit)
         (thenDo (VisitFunc (throughPointer (Some (Block_accept main))) visit)
         (thenDo (VisitFunc (throughPointer (map_option Block_accept els)) visit)
                 (Ret None))))))"
| "ForStmt_accept (ForStmt pos target source body) = (\<lambda>visit.
     visit (N_ForStmt (ForStmt pos target source body))
       (ifNoError
         (thenDo (VisitFunc (Dynamic (Reference_accept (Some target))) visit)
         (thenDo (VisitFunc (Dynamic (Expr_accept (Some source))) visit)
         (thenDo (VisitFunc (throughPointer (Some (Block_accept body))) visit)
                 (Ret None))))))"
| "SwitchStmt_accept (SwitchStmt pos target cases) = (\<lambda>visit.
     visit (N_SwitchStmt (SwitchStmt pos target cases))
       (ifNoError
         (thenDo (VisitFunc (Dynamic (Expr_accept (Some target))) visit)
                 (forEach (map (\<lambda>c. VisitFunc (throughPointer (Some (CaseStmt_accept c))) visit)
                            cases)))))"
| "CaseStmt_accept (CaseStmt pos dflt sel body) = (\<lambda>visit.
     visit (N_CaseStmt (CaseStmt pos dflt sel body))
       (ifNoError
         (thenDo (VisitFunc (throughPointer (map_option CaseSelect_accept sel)) visit)
                 (forEach (map (\<lambda>stmt. VisitFunc (throughPointer (Some (Stmt_accept stmt))) visit)
                            body)))))"
  by pat_completeness auto

text \<open>Each accept method calls the accept methods of children only, which are smaller.\<close>

termination
  by (relation "measure
        (case_sum
          (case_sum
            (case_sum (size_ClassDeclOf size)
              (case_sum (size_ClassMemberOf size) (size_EnumDeclOf size)))
            (case_sum (size_EnumMemberOf size)
              (case_sum (size_InitialiserDeclOf size) (size_FuncDeclOf size))))
          (case_sum
            (case_sum (size_BlockOf size) (case_sum size (size_IfStmtOf size)))
            (case_sum (size_ForStmtOf size)
              (case_sum (size_SwitchStmtOf size) (size_CaseStmtOf size)))))")
     (auto simp: less_Suc_eq_le size_list_estimation')



text \<open>The accept method of a declaration returned by a resolver.\<close>

definition Decl_accept :: "Decl \<Rightarrow> 's VisitorFunc \<Rightarrow> 's walk" where
  "Decl_accept d =
     (case d of
        D_ImportDecl i \<Rightarrow> ImportDecl_accept i
      | D_EnumDecl e \<Rightarrow> EnumDecl_accept e
      | D_CaseDecl c \<Rightarrow> CaseDecl_accept c
      | D_ClassDecl c \<Rightarrow> ClassDecl_accept c
      | D_InitialiserDecl i \<Rightarrow> InitialiserDecl_accept i
      | D_VarDecl v \<Rightarrow> VarDecl_accept v
      | D_FuncDecl f \<Rightarrow> FuncDecl_accept f)"

section \<open>The typed traversal\<close>

text \<open>
  The interface \<open>Visitor\<close> has one method per node type; each returns an error and may change
  the visitor's state. The argument types are those of the source: pointers for the node
  types with pointer receivers.
\<close>

type_synonym ('n, 's) visitMethod = "'n \<Rightarrow> 's \<Rightarrow> error option \<times> 's"

record 's Visitor =
  VisitAST :: "(AST option, 's) visitMethod"
  VisitArrayLiteral :: "(ExprNode, 's) visitMethod"
  VisitBlock :: "(Block, 's) visitMethod"
  VisitCall :: "(ExprNode, 's) visitMethod"
  VisitCaseDecl :: "(CaseDecl option, 's) visitMethod"
  VisitCaseSelect :: "(CaseSelect, 's) visitMethod"
  VisitCaseStmt :: "(CaseStmt, 's) visitMethod"
  VisitClassDecl :: "(ClassDecl option, 's) visitMethod"
  VisitClassMember :: "(ClassMember option, 's) visitMethod"
  VisitDictOrSetEntryLiteral :: "(ExprNode, 's) visitMethod"
  VisitDictOrSetLiteral :: "(ExprNode, 's) visitMethod"
  VisitEnumCase :: "(EnumCase, 's) visitMethod"
  VisitEnumDecl :: "(EnumDecl option, 's) visitMethod"
  VisitEnumMember :: "(EnumMember option, 's) visitMethod"
  VisitExpr :: "(ExprNode option, 's) visitMethod"
  VisitForStmt :: "(ForStmt, 's) visitMethod"
  VisitFuncDecl :: "(FuncDecl option, 's) visitMethod"
  VisitIfStmt :: "(IfStmt, 's) visitMethod"
  VisitImportDecl :: "(ImportDecl option, 's) visitMethod"
  VisitInitialiserDecl :: "(InitialiserDecl option, 's) visitMethod"
  VisitLiteral :: "(ExprNode option, 's) visitMethod"
  VisitParameters :: "(Parameters, 's) visitMethod"
  VisitReference :: "(ExprNode option, 's) visitMethod"
  VisitReferenceNext :: "(ExprNode option, 's) visitMethod"
  VisitReturnStmt :: "(ReturnStmt, 's) visitMethod"
  VisitRootDecl :: "(RootDecl option, 's) visitMethod"
  VisitStmt :: "(Stmt, 's) visitMethod"
  VisitSwitchStmt :: "(SwitchStmt, 's) visitMethod"
  VisitTerminal :: "(ExprNode, 's) visitMethod"
  VisitTypeDecl :: "(TypeDecl, 's) visitMethod"
  VisitTypeParamDecl :: "(TypeParamDecl, 's) visitMethod"
  VisitUnary :: "(ExprNode option, 's) visitMethod"
  VisitVarDecl :: "(VarDecl option, 's) visitMethod"
  VisitVarDeclAsgn :: "(VarDeclAsgn, 's) visitMethod"

text \<open>\<open>DefaultVisitor\<close>: every method returns nil and does nothing else.\<close>

definition noop :: "('n, 's) visitMethod" where
  "noop n s = (None, s)"

definition DefaultVisitor :: "'s Visitor" where
  "DefaultVisitor = \<lparr>
     VisitAST = noop, VisitArrayLiteral = noop, VisitBlock = noop, VisitCall = noop,
     VisitCaseDecl = noop, VisitCaseSelect = noop, VisitCaseStmt = noop,
     VisitClassDecl = noop, VisitClassMember = noop, VisitDictOrSetEntryLiteral = noop,
     VisitDictOrSetLiteral = noop, VisitEnumCase = noop, VisitEnumDecl = noop,
     VisitEnumMember = noop, VisitExpr = noop, VisitForStmt = noop, VisitFuncDecl = noop,
     VisitIfStmt = noop, VisitImportDecl = noop, VisitInitialiserDecl = noop,
     VisitLiteral = noop, VisitParameters = noop, VisitReference = noop,
     VisitReferenceNext = noop, VisitReturnStmt = noop, VisitRootDecl = noop,
     VisitStmt = noop, VisitSwitchStmt = noop, VisitTerminal = noop, VisitTypeDecl = noop,
     VisitTypeParamDecl = noop, VisitUnary = noop, VisitVarDecl = noop,
     VisitVarDeclAsgn = noop \<rparr>"

text \<open>
  \<^verbatim>\<open>reflect.ValueOf(node).Kind() == reflect.Ptr && reflect.ValueOf(node).IsNil()\<close>:
  the dynamic value is a pointer, and that pointer is nil.
\<close>

fun isNilPointer :: "Node \<Rightarrow> bool" where
  "isNilPointer (N_AST p) = (p = None)"
| "isNilPointer (N_CaseDecl p) = (p = None)"
| "isNilPointer (N_ClassDecl p) = (p = None)"
| "isNilPointer (N_ClassMember p) = (p = None)"
| "isNilPointer (N_EnumDecl p) = (p = None)"
| "isNilPointer (N_EnumMember p) = (p = None)"
| "isNilPointer (N_Expr p) = (p = None)"
| "isNilPointer (N_FuncDecl p) = (p = None)"
| "isNilPointer (N_ImportDecl p) = (p = None)"
| "isNilPointer (N_InitialiserDecl p) = (p = None)"
| "isNilPointer (N_Literal p) = (p = None)"
| "isNilPointer (N_Reference p) = (p = None)"
| "isNilPointer (N_ReferenceNext p) = (p = None)"
| "isNilPointer (N_RootDecl p) = (p = None)"
| "isNilPointer (N_Unary p) = (p = None)"
| "isNilPointer (N_VarDecl p) = (p = None)"
| "isNilPointer _ = False"

text \<open>
  The type switch, in the order of the source. Every dynamic type a \<open>Node\<close> can have has a
  case, so the panicking default is not reached.
\<close>

fun typeSwitch :: "'s Visitor \<Rightarrow> Node \<Rightarrow> 's \<Rightarrow> error option \<times> 's" where
  "typeSwitch visitor (N_AST n) = VisitAST visitor n"
| "typeSwitch visitor (N_ArrayLiteral n) = VisitArrayLiteral visitor n"
| "typeSwitch visitor (N_Block n) = VisitBlock visitor n"
| "typeSwitch visitor (N_Call n) = VisitCall visitor n"
| "typeSwitch visitor (N_CaseDecl n) = VisitCaseDecl visitor n"
| "typeSwitch visitor (N_CaseSelect n) = VisitCaseSelect visitor n"
| "typeSwitch visitor (N_CaseStmt n) = VisitCaseStmt visitor n"
| "typeSwitch visitor (N_ClassDecl n) = VisitClassDecl visitor n"
| "typeSwitch visitor (N_ClassMember n) = VisitClassMember visitor n"
| "typeSwitch visitor (N_DictOrSetEntryLiteral n) = VisitDictOrSetEntryLiteral visitor n"
| "typeSwitch visitor (N_DictOrSetLiteral n) = VisitDictOrSetLiteral visitor n"
| "typeSwitch visitor (N_EnumCase n) = VisitEnumCase visitor n"
| "typeSwitch visitor (N_EnumDecl n) = VisitEnumDecl visitor n"
| "typeSwitch visitor (N_EnumMember n) = VisitEnumMember visitor n"
| "typeSwitch visitor (N_Expr n) = VisitExpr visitor n"
| "typeSwitch visitor (N_ForStmt n) = VisitForStmt visitor n"
| "typeSwitch visitor (N_FuncDecl n) = VisitFuncDecl visitor n"
| "typeSwitch visitor (N_IfStmt n) = VisitIfStmt visitor n"
| "typeSwitch visitor (N_ImportDecl n) = VisitImportDecl visitor n"
| "typeSwitch visitor (N_InitialiserDecl n) = VisitInitialiserDecl visitor n"
| "typeSwitch visitor (N_Parameters n) = VisitParameters visitor n"
| "typeSwitch visitor (N_ReferenceNext n) = VisitReferenceNext visitor n"
| "typeSwitch visitor (N_RootDecl n) = VisitRootDecl visitor n"
| "typeSwitch visitor (N_SwitchStmt n) = VisitSwitchStmt visitor n"
| "typeSwitch visitor (N_TypeDecl n) = VisitTypeDecl visitor n"
| "typeSwitch visitor (N_Unary n) = VisitUnary visitor n"
| "typeSwitch visitor (N_VarDeclAsgn n) = VisitVarDeclAsgn visitor n"
| "typeSwitch visitor (N_Literal n) = VisitLiteral visitor n"
| "typeSwitch visitor (N_Reference n) = VisitReference visitor n"
| "typeSwitch visitor (N_ReturnStmt n) = VisitReturnStmt visitor n"
| "typeSwitch visitor (N_Stmt n) = VisitStmt visitor n"
| "typeSwitch visitor (N_Terminal n) = VisitTerminal visitor n"
| "typeSwitch visitor (N_TypeParamDecl n) = VisitTypeParamDecl visitor n"
| "typeSwitch visitor (N_VarDecl n) = VisitVarDecl visitor n"

text \<open>
  \<open>Visit\<close> hands \<open>VisitFunc\<close> a closure. The closure first returns nil for a nil interface
  and for a nil pointer (the reflect test), then wraps the continuation in \<open>maybeNext\<close> and
  switches on the dynamic type of the node.
\<close>

definition maybeNext :: "'s Next \<Rightarrow> 's Next" where
  "maybeNext next err = (if err = Some TerminateRecursion then Ret None else next err)"

definition Visit_closure :: "'s Visitor \<Rightarrow> 's VisitorFunc" where
  "Visit_closure visitor node next s =
     (if isNilPointer node then Ret None s
      else case typeSwitch visitor node s of (err, s') \<Rightarrow> maybeNext next err s')"

definition Visit :: "'s NodeValue \<Rightarrow> 's Visitor \<Rightarrow> 's walk" where
  "Visit node visitor = VisitFunc node (Visit_closure visitor)"

section \<open>The lexer\<close>

text \<open>
  The lexer is the value \<open>lex\<close>, a list of named regular expressions handed to the regex
  lexer of the participle library. That library joins the rules, in their order, into one
  alternation and matches it at the start of the remaining input, with the leftmost-first
  semantics of Go regular expressions: the first rule that matches at all wins, with the
  match that rule prefers. A rule whose name starts with a lower-case letter is matched and
  its text dropped; the other rules produce a token of the kind named after the rule. When
  no rule matches at the current position, lexing fails with an error that carries the
  position and the offending character. Each rule of the source is a function from the
  remaining input to the length of its match here.
\<close>

datatype TokenKind = Modifier | Keyword | Ident | Number | String | Newline | Operator | Punct
  | EOF

datatype Token = Token (Token_Type: TokenKind) (Token_Value: string) (Token_Pos: Position)

datatype LexError = InvalidToken Position char

text \<open>
  Character classes: \<open>[[:alpha:]]\<close>, \<open>\d\<close> and \<open>\w\<close> are the ASCII classes of Go. The
  assertion \<open>\b\<close> after a word character holds when the next character is not a word
  character or the input ends. Every rule that starts with \<open>\b\<close> goes on with a word
  character, and the lexer matches against the remaining input, so the leading \<open>\b\<close> holds
  whenever the rest of the rule matches.
\<close>

definition isAlpha :: "char \<Rightarrow> bool" where
  "isAlpha c \<longleftrightarrow> c \<in> set ''abcdefghijklmnopqrstuvwxyzABCDEFGHIJKLMNOPQRSTUVWXYZ''"

definition isDigit :: "char \<Rightarrow> bool" where
  "isDigit c \<longleftrightarrow> c \<in> set ''0123456789''"

definition isWord :: "char \<Rightarrow> bool" where
  "isWord c \<longleftrightarrow> isAlpha c \<or> isDigit c \<or> c = CHR ''_''"

definition wordEnds :: "string \<Rightarrow> bool" where
  "wordEnds rest = (case rest of [] \<Rightarrow> True | c # cs \<Rightarrow> \<not> isWord c)"

text \<open>
  \<^verbatim>\<open>comment = //.*|(?s:/\*.*?\*/)\<close>: a line comment runs up to the end of the line; a block
  comment runs up to the first \<open>*/\<close> after its opening and needs one.
\<close>

fun blockEnd :: "string \<Rightarrow> nat option" where
  "blockEnd [] = None"
| "blockEnd [c] = None"
| "blockEnd (c # d # cs) =
     (if c = CHR ''*'' \<and> d = CHR ''/'' then Some 2 else map_option Suc (blockEnd (d # cs)))"

definition match_comment :: "string \<Rightarrow> nat option" where
  "match_comment s =
     (if prefix ''//'' s then Some (2 + length (takeWhile (\<lambda>c. c \<noteq> CHR 0x0A) (drop 2 s)))
      else if prefix ''/*'' s then map_option (\<lambda>n. 2 + n) (blockEnd (drop 2 s))
      else None)"

text \<open>
\<^verbatim>\<open>backslash = \\\<close> and \<^verbatim>\<open>whitespace = [\r\t ]+\<close>.
\<close>

definition match_backslash :: "string \<Rightarrow> nat option" where
  "match_backslash s = (if prefix [CHR 0x5C] s then Some 1 else None)"

definition match_whitespace :: "string \<Rightarrow> nat option" where
  "match_whitespace s =
     (let n = length (takeWhile (\<lambda>c. c \<in> {CHR 0x0D, CHR 0x09, CHR '' ''}) s)
      in if 0 < n then Some n else None)"

text \<open>
  \<^verbatim>\<open>Modifier = \b(pub|override|static)\b\<close> and
  \<^verbatim>\<open>Keyword = \b(in|switch|case|default|if|enum|alias|let|fn|break|continue|for|throws|import|new)\b\<close>:
  the first alternative, in the order written, that is a prefix of the input and ends at a
  word boundary.
\<close>

definition matchWord :: "string list \<Rightarrow> string \<Rightarrow> nat option" where
  "matchWord alternatives s =
     map_option length
       (find (\<lambda>w. prefix w s \<and> wordEnds (drop (length w) s)) alternatives)"

definition match_Modifier :: "string \<Rightarrow> nat option" where
  "match_Modifier = matchWord [''pub'', ''override'', ''static'']"

definition match_Keyword :: "string \<Rightarrow> nat option" where
  "match_Keyword = matchWord [''in'', ''switch'', ''case'', ''default'', ''if'', ''enum'',
     ''alias'', ''let'', ''fn'', ''break'', ''continue'', ''for'', ''throws'', ''import'',
     ''new'']"

text \<open>
  \<^verbatim>\<open>Ident = \b([[:alpha:]_]\w*)\b\<close>: the greedy match ends at a word boundary.
  \<^verbatim>\<open>Number = \b(\d+(\.\d+)?)\b\<close>: all the digits; then the fraction, if there is one and it
  ends at a word boundary; without the fraction the digits must end at a word boundary.
\<close>

definition match_Ident :: "string \<Rightarrow> nat option" where
  "match_Ident s =
     (case s of [] \<Rightarrow> None
      | c # cs \<Rightarrow> if isAlpha c \<or> c = CHR ''_'' then Some (1 + length (takeWhile isWord cs))
                 else None)"

definition match_Number :: "string \<Rightarrow> nat option" where
  "match_Number s =
     (let n = length (takeWhile isDigit s);
          rest = drop n s;
          m = length (takeWhile isDigit (drop 1 rest))
      in if n = 0 then None
         else if prefix ''.'' rest \<and> 0 < m \<and> wordEnds (drop (1 + m) rest) then Some (n + 1 + m)
         else if wordEnds rest then Some n
         else None)"

text \<open>
  \<^verbatim>\<open>String = "(\\.|[^"])*"|'[^']*'\<close>. After the opening double quote the group is repeated
  as often as possible, the escape pair \<open>\\.\<close> being tried before the single character
  \<open>[^"]\<close>, and the closing quote is tried when no further repetition leads to a match.
  \<open>stringBody\<close> returns the length of the body with its closing quote. The dot does not
  match a line feed; \<open>[^"]\<close> matches every character but the quote, a backslash included.
\<close>

fun stringBody :: "string \<Rightarrow> nat option" where
  "stringBody [] = None"
| "stringBody (c # cs) =
     (case (if c = CHR 0x5C
            then (case cs of [] \<Rightarrow> None
                  | d # ds \<Rightarrow> if d = CHR 0x0A then None
                              else map_option (\<lambda>n. n + 2) (stringBody ds))
            else None) of
        Some n \<Rightarrow> Some n
      | None \<Rightarrow>
          (if c \<noteq> CHR 0x22 then map_option Suc (stringBody cs) else Some 1))"

definition match_String :: "string \<Rightarrow> nat option" where
  "match_String s =
     (case s of [] \<Rightarrow> None
      | c # cs \<Rightarrow>
          if c = CHR 0x22 then map_option Suc (stringBody cs)
          else if c = CHR 0x27 then
            (let k = length (takeWhile (\<lambda>d. d \<noteq> CHR 0x27) cs)
             in if k < length cs then Some (k + 2) else None)
          else None)"

text \<open>
  \<^verbatim>\<open>Newline = \n\<close>,
  \<^verbatim>\<open>Operator = ->|%=|>=|<=|\^=|&&|\|\||==|!=|\+=|-=|\*=|/=|[-=+*/<>%^!]\<close> (the two-character
  alternatives come before the class of single characters) and \<open>Punct\<close>, the class of the
  characters \<open>] ` ~ [ ( ) @ # $ { } : ; ? . ,\<close>.
\<close>

definition match_Newline :: "string \<Rightarrow> nat option" where
  "match_Newline s = (if prefix [CHR 0x0A] s then Some 1 else None)"

definition match_Operator :: "string \<Rightarrow> nat option" where
  "match_Operator s =
     (case find (\<lambda>op. prefix op s)
             [''->'', ''%='', ''>='', ''<='', ''^='', ''&&'', ''||'', ''=='', ''!='', ''+='',
              ''-='', ''*='', ''/=''] of
        Some op \<Rightarrow> Some (length op)
      | None \<Rightarrow>
          (case s of [] \<Rightarrow> None
           | c # cs \<Rightarrow> if c \<in> set ''-=+*/<>%^!'' then Some 1 else None))"

definition match_Punct :: "string \<Rightarrow> nat option" where
  "match_Punct s =
     (case s of [] \<Rightarrow> None
      | c # cs \<Rightarrow> if c \<in> set (''['' @ '']'' @ [CHR 0x60] @ ''~()@#${}:;?.,'') then Some 1 else None)"

text \<open>
The rules in the order of the source; \<open>None\<close> marks the three lower-case rules.
\<close>

fun firstRule :: "(TokenKind option \<times> (string \<Rightarrow> nat option)) list \<Rightarrow> string
    \<Rightarrow> (TokenKind option \<times> nat) option" where
  "firstRule [] s = None"
| "firstRule ((kind, rule) # rules) s =
     (case rule s of Some n \<Rightarrow> Some (kind, n) | None \<Rightarrow> firstRule rules s)"

definition lex :: "(TokenKind option \<times> (string \<Rightarrow> nat option)) list" where
  "lex = [(None, match_comment), (None, match_backslash), (None, match_whitespace),
          (Some Modifier, match_Modifier), (Some Keyword, match_Keyword),
          (Some Ident, match_Ident), (Some Number, match_Number), (Some String, match_String),
          (Some Newline, match_Newline), (Some Operator, match_Operator),
          (Some Punct, match_Punct)]"

text \<open>
  The position after a match: the offset grows by the length of the match, the line by the
  number of line feeds in it, and the column restarts after the last line feed. Columns
  count characters, which the model takes to be single bytes.
\<close>

definition advance :: "Position \<Rightarrow> string \<Rightarrow> Position" where
  "advance pos matched =
     (let lines = length (filter (\<lambda>c. c = CHR 0x0A) matched)
      in Position (Filename pos) (Offset pos + int (length matched)) (Line pos + int lines)
           (if lines = 0 then Column pos + int (length matched)
            else int (Suc (length (takeWhile (\<lambda>c. c \<noteq> CHR 0x0A) (rev matched))))))"

text \<open>
  Reading all tokens: the end of the input gives the token \<open>EOF\<close>; a position where no rule
  matches gives the error. Every rule matches at least one character, which is why the
  loop ends.
\<close>

function lexAll :: "Position \<Rightarrow> string \<Rightarrow> LexError + Token list" where
  "lexAll pos [] = Inr [Token EOF [] pos]"
| "lexAll pos (c # cs) =
     (case firstRule lex (c # cs) of
        None \<Rightarrow> Inl (InvalidToken pos c)
      | Some (kind, n) \<Rightarrow>
          (case lexAll (advance pos (take n (c # cs))) (drop n (c # cs)) of
             Inl err \<Rightarrow> Inl err
           | Inr tokens \<Rightarrow>
               Inr (case kind of None \<Rightarrow> tokens
                    | Some k \<Rightarrow> Token k (take n (c # cs)) pos # tokens)))"
  by pat_completeness auto
termination
proof (relation "measure (\<lambda>(pos, s). length s)")
  show "wf (measure (\<lambda>(pos, s). length s))" by simp
next
  fix pos :: Position and c :: char and cs :: string and x2 :: "TokenKind option \<times> nat"
    and kind :: "TokenKind option" and n :: nat
  assume m: "firstRule lex (c # cs) = Some x2" and x: "(kind, n) = x2"
  have r1: "match_comment s = Some k \<Longrightarrow> 0 < k" for s k
    by (auto simp: match_comment_def split: if_splits)
  have r2: "match_backslash s = Some k \<Longrightarrow> 0 < k" for s k
    by (auto simp: match_backslash_def split: if_splits)
  have r3: "match_whitespace s = Some k \<Longrightarrow> 0 < k" for s k
    by (auto simp: match_whitespace_def Let_def split: if_splits)
  have w: "matchWord ws s = Some k \<Longrightarrow> [] \<notin> set ws \<Longrightarrow> 0 < k" for ws s k
    by (auto simp: matchWord_def find_Some_iff in_set_conv_nth)
  have r4: "match_Modifier s = Some k \<Longrightarrow> 0 < k" for s k
    unfolding match_Modifier_def by (erule w) simp
  have r5: "match_Keyword s = Some k \<Longrightarrow> 0 < k" for s k
    unfolding match_Keyword_def by (erule w) simp
  have r6: "match_Ident s = Some k \<Longrightarrow> 0 < k" for s k
    by (auto simp: match_Ident_def split: list.splits if_splits)
  have r7: "match_Number s = Some k \<Longrightarrow> 0 < k" for s k
    by (auto simp: match_Number_def Let_def split: if_splits)
  have r8: "match_String s = Some k \<Longrightarrow> 0 < k" for s k
    by (auto simp: match_String_def Let_def split: list.splits if_splits)
  have r9: "match_Newline s = Some k \<Longrightarrow> 0 < k" for s k
    by (auto simp: match_Newline_def split: if_splits)
  have r10: "match_Operator s = Some k \<Longrightarrow> 0 < k" for s k
    by (auto simp: match_Operator_def find_Some_iff split: option.splits list.splits if_splits)
  have r11: "match_Punct s = Some k \<Longrightarrow> 0 < k" for s k
    by (simp add: match_Punct_def split: list.splits if_splits)
  have pos_len: "0 < k" if "firstRule lex (c # cs) = Some (q, k)" for q k
    using that r1 r2 r3 r4 r5 r6 r7 r8 r9 r10 r11
    by (simp add: lex_def split: option.splits)
  from m x have "0 < n" using pos_len[of kind n] by simp
  then show "((advance pos (take n (c # cs)), drop n (c # cs)), pos, c # cs)
      \<in> measure (\<lambda>(pos, s). length s)"
    by simp
qed

definition startPosition :: Position where
  "startPosition = Position [] 0 1 1"

section \<open>The parser\<close>

subsection \<open>The parsing engine\<close>

text \<open>
  Modelled from the spec: the grammar is written as tags on the fields of the structs and is
  interpreted by the participle library, which is not part of the sources. The
  specification names its three primitives (sequence, ordered choice, greedy repetition),
  backtracking to the choice point, and a lookahead bounded to one token, which the source
  sets with \<open>UseLookahead(1)\<close>. A parser takes the remaining tokens and either matches,
  returning a value and the tokens left, or fails, returning the tokens at which the failing
  branch stood. The functions for the recursive rules count their nesting down from a
  bound, the fuel; \<open>OutOfFuel\<close> says that the bound was too small, and is handed on by every
  combinator, so that a match or a failure is never the effect of the bound.
\<close>

datatype 'a outcome = Matched 'a "Token list" | Failed "Token list" | OutOfFuel

type_synonym 'a parser = "Token list \<Rightarrow> 'a outcome"

text \<open>
  A choice point (an alternation, an optional group, a repetition) goes on after a failed
  branch only if that branch consumed no more tokens than the lookahead; a branch that got
  further fails the whole parse.
\<close>

definition lookahead :: nat where
  "lookahead = 1"

definition recoverable :: "Token list \<Rightarrow> Token list \<Rightarrow> bool" where
  "recoverable start failedAt \<longleftrightarrow> length start - length failedAt \<le> lookahead"

text \<open>
  Sequence: \<open>bindP p f\<close> runs \<open>p\<close> and then \<open>f\<close> on its result. Ordered choice:
  \<open>orElse p q\<close> tries \<open>q\<close> at the same tokens when \<open>p\<close> failed within the lookahead; a
  choice ends with \<open>noAlternative\<close>. \<open>optional\<close> is the postfix \<open>?\<close>, \<open>many\<close> the
  postfix \<open>*\<close>. An iteration that matched without consuming a token would make the
  library loop; the grammar has none, and \<open>many\<close> stops there.
\<close>

definition ret :: "'a \<Rightarrow> 'a parser" where
  "ret x ts = Matched x ts"

definition noAlternative :: "'a parser" where
  "noAlternative ts = Failed ts"

definition bindP :: "'a parser \<Rightarrow> ('a \<Rightarrow> 'b parser) \<Rightarrow> 'b parser" where
  "bindP p f ts =
     (case p ts of Matched x rest \<Rightarrow> f x rest | Failed at \<Rightarrow> Failed at | OutOfFuel \<Rightarrow> OutOfFuel)"

definition orElse :: "'a parser \<Rightarrow> 'a parser \<Rightarrow> 'a parser" where
  "orElse p q ts =
     (case p ts of
        Matched x rest \<Rightarrow> Matched x rest
      | Failed at \<Rightarrow> if recoverable ts at then q ts else Failed at
      | OutOfFuel \<Rightarrow> OutOfFuel)"

definition optional :: "'a parser \<Rightarrow> 'a option parser" where
  "optional p ts =
     (case p ts of
        Matched x rest \<Rightarrow> Matched (Some x) rest
      | Failed at \<Rightarrow> if recoverable ts at then Matched None ts else Failed at
      | OutOfFuel \<Rightarrow> OutOfFuel)"

function many :: "'a parser \<Rightarrow> 'a list parser" where
  "many p ts =
     (case p ts of
        Matched x rest \<Rightarrow>
          if length rest < length ts
          then (case many p rest of
                  Matched xs rest' \<Rightarrow> Matched (x # xs) rest'
                | Failed at \<Rightarrow> Failed at
                | OutOfFuel \<Rightarrow> OutOfFuel)
          else Matched [x] rest
      | Failed at \<Rightarrow> if recoverable ts at then Matched [] ts else Failed at
      | OutOfFuel \<Rightarrow> OutOfFuel)"
  by pat_completeness auto
termination
  by (relation "measure (\<lambda>(p, ts). length ts)") auto

text \<open>
  A quoted literal of the grammar matches a token by its text; \<open>@Kind\<close> matches a token by
  its kind and captures its text. The field \<open>Pos\<close> of a struct receives the position of the
  token at which the struct starts.
\<close>

definition literal :: "string \<Rightarrow> unit parser" where
  "literal v ts =
     (case ts of [] \<Rightarrow> Failed ts
      | t # rest \<Rightarrow> if Token_Value t = v then Matched () rest else Failed ts)"

definition token :: "TokenKind \<Rightarrow> string parser" where
  "token kind ts =
     (case ts of [] \<Rightarrow> Failed ts
      | t # rest \<Rightarrow> if Token_Type t = kind then Matched (Token_Value t) rest else Failed ts)"

definition withPos :: "(Position \<Rightarrow> 'a parser) \<Rightarrow> 'a parser" where
  "withPos p ts = p (case ts of [] \<Rightarrow> Position [] 0 0 0 | t # rest \<Rightarrow> Token_Pos t) ts"

text \<open>
  Shapes that recur in the tags: \<open>x ( sep x )*\<close>; the body
  \<open>( x ( ";" x )* ";"? )?\<close> of classes, enums, blocks and switch cases; a slice or string
  left empty by an optional group that did not match; a \<open>bool\<close> set by an optional capture.
\<close>

definition separated :: "'a parser \<Rightarrow> string \<Rightarrow> 'a list parser" where
  "separated p sep =
     bindP p (\<lambda>x. bindP (many (bindP (literal sep) (\<lambda>_. p))) (\<lambda>xs. ret (x # xs)))"

definition orEmpty :: "'a list option \<Rightarrow> 'a list" where
  "orEmpty grp = (case grp of None \<Rightarrow> [] | Some xs \<Rightarrow> xs)"

definition body :: "'a parser \<Rightarrow> 'a list parser" where
  "body p =
     bindP (optional (bindP (separated p '';'') (\<lambda>xs. bindP (optional (literal '';'')) (\<lambda>_. ret xs))))
       (\<lambda>grp. ret (orEmpty grp))"

definition flag :: "'a parser \<Rightarrow> bool parser" where
  "flag p = bindP (optional p) (\<lambda>r. ret (r \<noteq> None))"

definition orBlank :: "string option \<Rightarrow> string" where
  "orBlank captured = (case captured of None \<Rightarrow> [] | Some v \<Rightarrow> v)"

subsection \<open>The grammar\<close>

text \<open>
  One parser per struct, following the tags field by field. The grammars of \<open>Expr\<close> and
  \<open>Reference\<close> are not among the given sources: their parsers are the parameters \<open>pE\<close> and
  \<open>pR\<close>, and what is proved below holds for every choice of them.
\<close>

definition parseTypeParamDecl :: "ExprNode parser \<Rightarrow> TypeParamDecl parser" where
  "parseTypeParamDecl pR = withPos (\<lambda>pos.
     bindP (token Ident) (\<lambda>name.
     bindP (optional (bindP (literal '':'') (\<lambda>_. separated pR '',''))) (\<lambda>constraints.
     ret (TypeParamDecl pos name (orEmpty constraints)))))"

definition parseTypeDecl :: "ExprNode parser \<Rightarrow> TypeDecl parser" where
  "parseTypeDecl pR = withPos (\<lambda>pos.
     bindP (token Ident) (\<lambda>name.
     bindP (optional
              (bindP (literal ''<'') (\<lambda>_.
               bindP (separated (parseTypeParamDecl pR) '','') (\<lambda>params.
               bindP (optional (literal '','')) (\<lambda>_.
               bindP (literal ''>'') (\<lambda>_. ret params)))))) (\<lambda>params.
     ret (TypeDecl pos name (orEmpty params)))))"

definition parseParameters :: "ExprNode parser \<Rightarrow> Parameters parser" where
  "parseParameters pR = withPos (\<lambda>pos.
     bindP (separated (token Ident) '','') (\<lambda>names.
     bindP (literal '':'') (\<lambda>_.
     bindP pR (\<lambda>ty. ret (Parameters pos names ty)))))"

text \<open>
The parameter list \<open>( @@ ( "," @@ )* )? ","? ")"\<close> of \<open>FuncDecl\<close> and \<open>InitialiserDecl\<close>.
\<close>

definition parseParameterList :: "ExprNode parser \<Rightarrow> Parameters list parser" where
  "parseParameterList pR =
     bindP (optional (separated (parseParameters pR) '','')) (\<lambda>params.
     bindP (optional (literal '','')) (\<lambda>_.
     bindP (literal '')'') (\<lambda>_. ret (orEmpty params))))"

definition parseVarDeclAsgn :: "ExprNode parser \<Rightarrow> ExprNode parser \<Rightarrow> VarDeclAsgn parser" where
  "parseVarDeclAsgn pE pR = withPos (\<lambda>pos.
     bindP (token Ident) (\<lambda>name.
     bindP (optional (bindP (literal '':'') (\<lambda>_. pR))) (\<lambda>ty.
     bindP (optional (bindP (literal ''='') (\<lambda>_. pE))) (\<lambda>dflt.
     ret (VarDeclAsgn pos name ty dflt)))))"

definition parseVarDecl :: "ExprNode parser \<Rightarrow> ExprNode parser \<Rightarrow> VarDecl parser" where
  "parseVarDecl pE pR = withPos (\<lambda>pos.
     bindP (literal ''let'') (\<lambda>_.
     bindP (separated (parseVarDeclAsgn pE pR) '','') (\<lambda>vars. ret (VarDecl pos vars))))"

definition parseImportDecl :: "ImportDecl parser" where
  "parseImportDecl = withPos (\<lambda>pos.
     bindP (literal ''import'') (\<lambda>_.
     bindP (optional (token Ident)) (\<lambda>alias.
     bindP (token String) (\<lambda>path. ret (ImportDecl pos (orBlank alias) path)))))"

definition parseCaseDecl :: "ExprNode parser \<Rightarrow> CaseDecl parser" where
  "parseCaseDecl pR = withPos (\<lambda>pos.
     bindP (literal ''case'') (\<lambda>_.
     bindP (token Ident) (\<lambda>name.
     bindP (optional
              (bindP (literal ''('') (\<lambda>_.
               bindP (parseTypeDecl pR) (\<lambda>ty.
               bindP (literal '')'') (\<lambda>_. ret ty))))) (\<lambda>ty.
     ret (CaseDecl pos name ty)))))"

definition parseEnumCase :: "EnumCase parser" where
  "parseEnumCase = withPos (\<lambda>pos.
     bindP (literal ''.'') (\<lambda>_.
     bindP (token Ident) (\<lambda>name.
     bindP (optional
              (bindP (literal ''('') (\<lambda>_.
               bindP (token Ident) (\<lambda>v.
               bindP (literal '')'') (\<lambda>_. ret v))))) (\<lambda>var.
     ret (EnumCase pos name (orBlank var))))))"

definition parseCaseSelect :: "ExprNode parser \<Rightarrow> CaseSelect parser" where
  "parseCaseSelect pE = withPos (\<lambda>pos.
     orElse (bindP parseEnumCase (\<lambda>e. ret (CaseSelect pos (Some e) None)))
    (orElse (bindP pE (\<lambda>e. ret (CaseSelect pos None (Some e))))
     noAlternative))"

definition parseReturnStmt :: "ExprNode parser \<Rightarrow> ReturnStmt parser" where
  "parseReturnStmt pE = withPos (\<lambda>pos.
     bindP (literal ''return'') (\<lambda>_.
     bindP (optional pE) (\<lambda>v. ret (ReturnStmt pos v))))"

text \<open>
  The rules that refer to each other. In \<open>parseStmt\<close> the ten alternatives stand in the
  order of the fields of \<open>Stmt\<close>, the expression last.
\<close>

fun parseClassDecl :: "ExprNode parser \<Rightarrow> ExprNode parser \<Rightarrow> nat \<Rightarrow> ClassDecl parser"
  and parseClassMember :: "ExprNode parser \<Rightarrow> ExprNode parser \<Rightarrow> nat \<Rightarrow> ClassMember parser"
  and parseEnumDecl :: "ExprNode parser \<Rightarrow> ExprNode parser \<Rightarrow> nat \<Rightarrow> EnumDecl parser"
  and parseEnumMember :: "ExprNode parser \<Rightarrow> ExprNode parser \<Rightarrow> nat \<Rightarrow> EnumMember parser"
  and parseInitialiserDecl ::
    "ExprNode parser \<Rightarrow> ExprNode parser \<Rightarrow> nat \<Rightarrow> InitialiserDecl parser"
  and parseFuncDecl :: "ExprNode parser \<Rightarrow> ExprNode parser \<Rightarrow> nat \<Rightarrow> FuncDecl parser"
  and parseBlock :: "ExprNode parser \<Rightarrow> ExprNode parser \<Rightarrow> nat \<Rightarrow> Block parser"
  and parseStmt :: "ExprNode parser \<Rightarrow> ExprNode parser \<Rightarrow> nat \<Rightarrow> Stmt parser"
  and parseIfStmt :: "ExprNode parser \<Rightarrow> ExprNode parser \<Rightarrow> nat \<Rightarrow> IfStmt parser"
  and parseForStmt :: "ExprNode parser \<Rightarrow> ExprNode parser \<Rightarrow> nat \<Rightarrow> ForStmt parser"
  and parseSwitchStmt :: "ExprNode parser \<Rightarrow> ExprNode parser \<Rightarrow> nat \<Rightarrow> SwitchStmt parser"
  and parseCaseStmt :: "ExprNode parser \<Rightarrow> ExprNode parser \<Rightarrow> nat \<Rightarrow> CaseStmt parser"
where
  "parseClassDecl pE pR 0 = (\<lambda>ts. OutOfFuel)"
| "parseClassDecl pE pR (Suc n) = withPos (\<lambda>pos.
     bindP (literal ''class'') (\<lambda>_.
     bindP (parseTypeDecl pR) (\<lambda>ty.
     bindP (literal ''{'') (\<lambda>_.
     bindP (body (parseClassMember pE pR n)) (\<lambda>members.
     bindP (literal ''}'') (\<lambda>_. ret (ClassDecl pos ty members)))))))"
| "parseClassMember pE pR 0 = (\<lambda>ts. OutOfFuel)"
| "parseClassMember pE pR (Suc n) = withPos (\<lambda>pos.
     bindP (many (token Modifier)) (\<lambda>mods.
       orElse (bindP (parseVarDecl pE pR) (\<lambda>d.
                 ret (ClassMember pos mods (Some d) None None None None)))
      (orElse (bindP (parseFuncDecl pE pR n) (\<lambda>d.
                 ret (ClassMember pos mods None (Some d) None None None)))
      (orElse (bindP (parseClassDecl pE pR n) (\<lambda>d.
                 ret (ClassMember pos mods None None (Some d) None None)))
      (orElse (bindP (parseEnumDecl pE pR n) (\<lambda>d.
                 ret (ClassMember pos mods None None None (Some d) None)))
      (orElse (bindP (parseInitialiserDecl pE pR n) (\<lambda>d.
                 ret (ClassMember pos mods None None None None (Some d))))
       noAlternative))))))"
| "parseEnumDecl pE pR 0 = (\<lambda>ts. OutOfFuel)"
| "parseEnumDecl pE pR (Suc n) = withPos (\<lambda>pos.
     bindP (literal ''enum'') (\<lambda>_.
     bindP (parseTypeDecl pR) (\<lambda>ty.
     bindP (literal ''{'') (\<lambda>_.
     bindP (body (parseEnumMember pE pR n)) (\<lambda>members.
     bindP (literal ''}'') (\<lambda>_. ret (EnumDecl pos ty members)))))))"
| "parseEnumMember pE pR 0 = (\<lambda>ts. OutOfFuel)"
| "parseEnumMember pE pR (Suc n) = withPos (\<lambda>pos.
     bindP (many (token Modifier)) (\<lambda>mods.
       orElse (bindP (parseCaseDecl pR) (\<lambda>d.
                 ret (EnumMember pos mods (Some d) None None None None None)))
      (orElse (bindP (parseVarDecl pE pR) (\<lambda>d.
                 ret (EnumMember pos mods None (Some d) None None None None)))
      (orElse (bindP (parseFuncDecl pE pR n) (\<lambda>d.
                 ret (EnumMember pos mods None None (Some d) None None None)))
      (orElse (bindP (parseClassDecl pE pR n) (\<lambda>d.
                 ret (EnumMember pos mods None None None (Some d) None None)))
      (orElse (bindP (parseEnumDecl pE pR n) (\<lambda>d.
                 ret (EnumMember pos mods None None None None (Some d) None)))
      (orElse (bindP (parseInitialiserDecl pE pR n) (\<lambda>d.
                 ret (EnumMember pos mods None None None None None (Some d))))
       noAlternative)))))))"
| "parseInitialiserDecl pE pR 0 = (\<lambda>ts. OutOfFuel)"
| "parseInitialiserDecl pE pR (Suc n) = withPos (\<lambda>pos.
     bindP (literal ''init'') (\<lambda>_.
     bindP (literal ''('') (\<lambda>_.
     bindP (parseParameterList pR) (\<lambda>params.
     bindP (flag (literal ''throws'')) (\<lambda>throws.
     bindP (parseBlock pE pR n) (\<lambda>blk. ret (InitialiserDecl pos params throws blk)))))))"
| "parseFuncDecl pE pR 0 = (\<lambda>ts. OutOfFuel)"
| "parseFuncDecl pE pR (Suc n) = withPos (\<lambda>pos.
     bindP (literal ''fn'') (\<lambda>_.
     bindP (token Ident) (\<lambda>name.
     bindP (literal ''('') (\<lambda>_.
     bindP (parseParameterList pR) (\<lambda>params.
     bindP (flag (literal ''throws'')) (\<lambda>throws.
     bindP (optional (bindP (literal '':'') (\<lambda>_. pR))) (\<lambda>result.
     bindP (parseBlock pE pR n) (\<lambda>blk.
     ret (FuncDecl pos name params throws result blk)))))))))"
| "parseBlock pE pR 0 = (\<lambda>ts. OutOfFuel)"
| "parseBlock pE pR (Suc n) = withPos (\<lambda>pos.
     bindP (literal ''{'') (\<lambda>_.
     bindP (body (parseStmt pE pR n)) (\<lambda>stmts.
     bindP (literal ''}'') (\<lambda>_. ret (Block pos stmts)))))"
| "parseStmt pE pR 0 = (\<lambda>ts. OutOfFuel)"
| "parseStmt pE pR (Suc n) = withPos (\<lambda>pos.
       orElse (bindP (parseReturnStmt pE) (\<lambda>x.
                 ret (Stmt pos (Some x) None None None None None None None None None)))
      (orElse (bindP (parseIfStmt pE pR n) (\<lambda>x.
                 ret (Stmt pos None (Some x) None None None None None None None None)))
      (orElse (bindP (parseForStmt pE pR n) (\<lambda>x.
                 ret (Stmt pos None None (Some x) None None None None None None None)))
      (orElse (bindP (parseSwitchStmt pE pR n) (\<lambda>x.
                 ret (Stmt pos None None None (Some x) None None None None None None)))
      (orElse (bindP (parseBlock pE pR n) (\<lambda>x.
                 ret (Stmt pos None None None None (Some x) None None None None None)))
      (orElse (bindP (parseVarDecl pE pR) (\<lambda>x.
                 ret (Stmt pos None None None None None (Some x) None None None None)))
      (orElse (bindP (parseFuncDecl pE pR n) (\<lambda>x.
                 ret (Stmt pos None None None None None None (Some x) None None None)))
      (orElse (bindP (parseClassDecl pE pR n) (\<lambda>x.
                 ret (Stmt pos None None None None None None None (Some x) None None)))
      (orElse (bindP (parseEnumDecl pE pR n) (\<lambda>x.
                 ret (Stmt pos None None None None None None None None (Some x) None)))
      (orElse (bindP pE (\<lambda>x.
                 ret (Stmt pos None None None None None None None None None (Some x))))
       noAlternative))))))))))"
| "parseIfStmt pE pR 0 = (\<lambda>ts. OutOfFuel)"
| "parseIfStmt pE pR (Suc n) = withPos (\<lambda>pos.
     bindP (literal ''if'') (\<lambda>_.
     bindP pE (\<lambda>cond.
     bindP (parseBlock pE pR n) (\<lambda>main.
     bindP (optional (bindP (literal ''else'') (\<lambda>_. parseBlock pE pR n))) (\<lambda>els.
     ret (IfStmt pos cond main els))))))"
| "parseForStmt pE pR 0 = (\<lambda>ts. OutOfFuel)"
| "parseForStmt pE pR (Suc n) = withPos (\<lambda>pos.
     bindP (literal ''for'') (\<lambda>_.
     bindP pR (\<lambda>target.
     bindP (literal ''in'') (\<lambda>_.
     bindP pE (\<lambda>source.
     bindP (parseBlock pE pR n) (\<lambda>blk. ret (ForStmt pos target source blk)))))))"
| "parseSwitchStmt pE pR 0 = (\<lambda>ts. OutOfFuel)"
| "parseSwitchStmt pE pR (Suc n) = withPos (\<lambda>pos.
     bindP (literal ''switch'') (\<lambda>_.
     bindP pE (\<lambda>target.
     bindP (literal ''{'') (\<lambda>_.
     bindP (many (parseCaseStmt pE pR n)) (\<lambda>cases.
     bindP (literal ''}'') (\<lambda>_. ret (SwitchStmt pos target cases)))))))"
| "parseCaseStmt pE pR 0 = (\<lambda>ts. OutOfFuel)"
| "parseCaseStmt pE pR (Suc n) = withPos (\<lambda>pos.
     bindP (orElse (bindP (literal ''default'') (\<lambda>_. ret (True, None)))
           (orElse (bindP (literal ''case'') (\<lambda>_.
                      bindP (parseCaseSelect pE) (\<lambda>sel. ret (False, Some sel))))
            noAlternative)) (\<lambda>selector.
     bindP (literal '':'') (\<lambda>_.
     bindP (body (parseStmt pE pR n)) (\<lambda>stmts.
     ret (CaseStmt pos (fst selector) (snd selector) stmts)))))"

text \<open>
  \<open>RootDecl\<close>: the modifiers, then one of five declarations; the terminator \<open>";"\<close> is
  optional after a class, an import, an enum and a function, and required after a
  variable declaration.
\<close>

definition parseRootDecl :: "ExprNode parser \<Rightarrow> ExprNode parser \<Rightarrow> nat \<Rightarrow> RootDecl parser" where
  "parseRootDecl pE pR fuel = withPos (\<lambda>pos.
     bindP (many (token Modifier)) (\<lambda>mods.
       orElse (bindP (parseClassDecl pE pR fuel) (\<lambda>d.
               bindP (optional (literal '';'')) (\<lambda>_.
                 ret (RootDecl pos mods (Some d) None None None None))))
      (orElse (bindP parseImportDecl (\<lambda>d.
               bindP (optional (literal '';'')) (\<lambda>_.
                 ret (RootDecl pos mods None (Some d) None None None))))
      (orElse (bindP (parseEnumDecl pE pR fuel) (\<lambda>d.
               bindP (optional (literal '';'')) (\<lambda>_.
                 ret (RootDecl pos mods None None (Some d) None None))))
      (orElse (bindP (parseVarDecl pE pR) (\<lambda>d.
               bindP (literal '';'') (\<lambda>_.
                 ret (RootDecl pos mods None None None (Some d) None))))
      (orElse (bindP (parseFuncDecl pE pR fuel) (\<lambda>d.
               bindP (optional (literal '';'')) (\<lambda>_.
                 ret (RootDecl pos mods None None None None (Some d)))))
       noAlternative))))))"

definition parseAST :: "ExprNode parser \<Rightarrow> ExprNode parser \<Rightarrow> nat \<Rightarrow> AST parser" where
  "parseAST pE pR fuel = withPos (\<lambda>pos.
     bindP (many (parseRootDecl pE pR fuel)) (\<lambda>decls. ret (AST pos decls)))"

subsection \<open>The entry points\<close>

text \<open>
  Modelled from the spec: \<open>fixupLexerDefinition\<close>, through which the parser reads the
  tokens of \<open>lex\<close>, is not among the given sources. No rule of the grammar refers to the
  token kind \<open>Newline\<close>, and the specification asks to treat it like whitespace: the tokens
  of that kind are dropped.
\<close>

definition fixup :: "Token list \<Rightarrow> Token list" where
  "fixup tokens = filter (\<lambda>t. Token_Type t \<noteq> Newline) tokens"

text \<open>
  The option \<open>Unquote()\<close> replaces the text of a string token by the string it denotes. The
  model removes the quotes; it does not decode escape sequences.
\<close>

definition unquote :: "Token \<Rightarrow> Token" where
  "unquote t =
     (if Token_Type t = String
      then Token String (butlast (tl (Token_Value t))) (Token_Pos t) else t)"

text \<open>
  \<open>parser.ParseString(s, ast)\<close> of the library: it lexes the whole input, parses the root
  struct, and requires that only the end of the input is left. It fills \<open>*ast\<close> and returns
  an error or nil. Where the library leaves in \<open>*ast\<close> what the root rule had captured
  before a failure, the model leaves \<open>*ast\<close> as it was.
\<close>

datatype ParseError = LexFailure LexError | UnexpectedToken "Token list" | FuelExhausted

definition emptyAST :: AST where
  "emptyAST = AST (Position [] 0 0 0) []"

definition parser_ParseString ::
  "ExprNode parser \<Rightarrow> ExprNode parser \<Rightarrow> nat \<Rightarrow> string \<Rightarrow> AST \<Rightarrow> AST \<times> ParseError option" where
  "parser_ParseString pE pR fuel s ast =
     (case lexAll startPosition s of
        Inl err \<Rightarrow> (ast, Some (LexFailure err))
      | Inr tokens \<Rightarrow>
          (case parseAST pE pR fuel (map unquote (fixup tokens)) of
             Matched tree rest \<Rightarrow>
               if map Token_Type rest = [EOF] then (tree, None)
               else (tree, Some (UnexpectedToken rest))
           | Failed at \<Rightarrow> (ast, Some (UnexpectedToken at))
           | OutOfFuel \<Rightarrow> (ast, Some FuelExhausted)))"

text \<open>
  \<^verbatim>\<open>func ParseString(s string) (*AST, error) {
      ast := &AST{}
      return ast, parser.ParseString(s, ast) }\<close>
  and \<open>Parse\<close>, the same with a reader. The first component of the result is the pointer,
  \<open>None\<close> being nil. The call into the library is a parameter of \<open>ParseString_with\<close> and
  \<open>Parse_with\<close>; \<open>ParseString\<close> is \<open>ParseString_with\<close> over the model of the library.
\<close>

definition ParseString_with :: "(string \<Rightarrow> AST \<Rightarrow> AST \<times> 'e option) \<Rightarrow> string
    \<Rightarrow> AST option \<times> 'e option" where
  "ParseString_with parser_ParseString' s =
     (let ast = emptyAST; (ast', err) = parser_ParseString' s ast in (Some ast', err))"

definition Parse_with :: "('r \<Rightarrow> AST \<Rightarrow> AST \<times> 'e option) \<Rightarrow> 'r
    \<Rightarrow> AST option \<times> 'e option" where
  "Parse_with parser_Parse r =
     (let ast = emptyAST; (ast', err) = parser_Parse r ast in (Some ast', err))"

definition ParseString ::
  "ExprNode parser \<Rightarrow> ExprNode parser \<Rightarrow> nat \<Rightarrow> string \<Rightarrow> AST option \<times> ParseError option" where
  "ParseString pE pR fuel = ParseString_with (parser_ParseString pE pR fuel)"

section \<open>Vocabulary for the properties\<close>







text \<open>A visitor that records every node handed to it and returns nil.\<close>

definition remember :: "('n \<Rightarrow> Node) \<Rightarrow> ('n, Node list) visitMethod" where
  "remember mk n s = (None, s @ [mk n])"

definition recorder :: "Node list Visitor" where
  "recorder = \<lparr>
     VisitAST = remember N_AST, VisitArrayLiteral = remember N_ArrayLiteral, VisitBlock = remember N_Block,
     VisitCall = remember N_Call, VisitCaseDecl = remember N_CaseDecl,
     VisitCaseSelect = remember N_CaseSelect, VisitCaseStmt = remember N_CaseStmt,
     VisitClassDecl = remember N_ClassDecl, VisitClassMember = remember N_ClassMember,
     VisitDictOrSetEntryLiteral = remember N_DictOrSetEntryLiteral,
     VisitDictOrSetLiteral = remember N_DictOrSetLiteral, VisitEnumCase = remember N_EnumCase,
     VisitEnumDecl = remember N_EnumDecl, VisitEnumMember = remember N_EnumMember,
     VisitExpr = remember N_Expr, VisitForStmt = remember N_ForStmt, VisitFuncDecl = remember N_FuncDecl,
     VisitIfStmt = remember N_IfStmt, VisitImportDecl = remember N_ImportDecl,
     VisitInitialiserDecl = remember N_InitialiserDecl, VisitLiteral = remember N_Literal,
     VisitParameters = remember N_Parameters, VisitReference = remember N_Reference,
     VisitReferenceNext = remember N_ReferenceNext, VisitReturnStmt = remember N_ReturnStmt,
     VisitRootDecl = remember N_RootDecl, VisitStmt = remember N_Stmt,
     VisitSwitchStmt = remember N_SwitchStmt, VisitTerminal = remember N_Terminal,
     VisitTypeDecl = remember N_TypeDecl, VisitTypeParamDecl = remember N_TypeParamDecl,
     VisitUnary = remember N_Unary, VisitVarDecl = remember N_VarDecl,
     VisitVarDeclAsgn = remember N_VarDeclAsgn \<rparr>"

text \<open>The nodes of an expression tree, parents before children, children in order.\<close>

primrec preorder :: "ExprNode \<Rightarrow> Node list" where
  "preorder (ExprNode kind pos str children) =
     nodeOfExpr (ExprNode kind pos str children) # concat (map preorder children)"

text \<open>
  An expression statement, and an \<open>if\<close> with an \<open>else\<close>: the trees the grammar builds for
  \<open>if cond { a } else { b }\<close>, whatever the expression trees of \<open>cond\<close>, \<open>a\<close> and \<open>b\<close> are.
\<close>

definition exprStmt :: "Position \<Rightarrow> ExprNode \<Rightarrow> Stmt" where
  "exprStmt pos e = Stmt pos None None None None None None None None None (Some e)"

definition ifElse :: "Position \<Rightarrow> ExprNode \<Rightarrow> Block \<Rightarrow> Block \<Rightarrow> IfStmt" where
  "ifElse pos cond main els = IfStmt pos cond main (Some els)"





text \<open>
  The state of the lexer after \<open>k\<close> matches: its position and the input left. It says where
  in an input the lexer arrives at a given character.
\<close>

fun lexSkip :: "nat \<Rightarrow> Position \<Rightarrow> string \<Rightarrow> (Position \<times> string) option" where
  "lexSkip 0 pos s = Some (pos, s)"
| "lexSkip (Suc k) pos s =
     (case firstRule lex s of
        None \<Rightarrow> None
      | Some (kind, n) \<Rightarrow> lexSkip k (advance pos (take n s)) (drop n s))"

text \<open>Kind and text of each token of a stream.\<close>

definition kindsAndValues :: "Token list \<Rightarrow> (TokenKind \<times> string) list" where
  "kindsAndValues tokens = map (\<lambda>t. (Token_Type t, Token_Value t)) tokens"

text \<open>The number of populated arms of a statement.\<close>

definition Stmt_arms :: "Stmt \<Rightarrow> nat" where
  "Stmt_arms s =
     length (filter (\<lambda>populated. populated)
       [Stmt_Return s \<noteq> None, Stmt_If s \<noteq> None, Stmt_For s \<noteq> None, Stmt_Switch s \<noteq> None,
        Stmt_Block s \<noteq> None, Stmt_VarDecl s \<noteq> None, Stmt_FuncDecl s \<noteq> None,
        Stmt_ClassDecl s \<noteq> None, Stmt_EnumDecl s \<noteq> None, Stmt_Expression s \<noteq> None])"

text \<open>
  A stand-in for the expression grammar, to try properties on an input: an expression that
  is a single identifier.
\<close>

definition identifierExpr :: "ExprNode parser" where
  "identifierExpr = withPos (\<lambda>pos.
     bindP (token Ident) (\<lambda>name. ret (ExprNode KExpr pos name [])))"

text \<open>The tree of a program that consists of one declaration starting at the first token.\<close>

definition programOf :: "RootDecl \<Rightarrow> AST" where
  "programOf d = AST (RootDecl_Pos d) [d]"

text \<open>
  Whether the tokens start with the terminator \<open>;\<close>, and the tokens left once a terminator
  at their start, if there is one, has been consumed.
\<close>

definition startsWithTerminator :: "Token list \<Rightarrow> bool" where
  "startsWithTerminator rest = (case rest of [] \<Rightarrow> False | t # r \<Rightarrow> Token_Value t = '';'')"

definition afterTerminator :: "Token list \<Rightarrow> Token list" where
  "afterTerminator rest = (if startsWithTerminator rest then tl rest else rest)"

section \<open>Laws of the raw traversal\<close>

lemma thenDo_Ret_None [simp]: "thenDo (Ret None) w = w"
  by (rule ext) (simp add: thenDo_def)

lemma thenDo_Panic [simp]: "thenDo Panic w = Panic"
  by (rule ext) (simp add: thenDo_def)

lemma VisitFunc_Dynamic [simp]: "VisitFunc (Dynamic accept) visit = accept visit"
  by (simp add: VisitFunc_def)

lemma VisitFunc_NilInterface [simp]: "VisitFunc NilInterface visit = Ret None"
  by (simp add: VisitFunc_def)

lemma VisitFunc_throughPointer_Some [simp]:
  "VisitFunc (throughPointer (Some accept)) visit = accept visit"
  by (simp add: VisitFunc_def throughPointer_def)

lemma VisitFunc_throughPointer_None [simp]:
  "VisitFunc (throughPointer None) visit = Panic"
  by (simp add: VisitFunc_def throughPointer_def)

lemma visitResolved_Panic [simp]: "visitResolved (PanicWith msg) visit = Panic"
  by (rule ext) (simp add: visitResolved_def)

lemma visitResolved_Returned [simp]: "visitResolved (Returned node) visit = VisitFunc node visit"
  by (rule ext) (simp add: visitResolved_def)





























section \<open>Properties of the resolvers and of the traversals\<close>

subsection \<open>The resolver of an enum member\<close>

text \<open>
  Claim C1 says that \<open>EnumMember.Decl()\<close> returns the populated arm whenever exactly one arm
  is populated, a nested \<open>EnumDecl\<close> included. The code does not: for an enum member whose
  only populated arm is \<open>EnumDecl\<close> (as for the inner enum of \<open>enum E { enum F { } }\<close>) exactly
  one arm is populated, and the resolver reaches its default case and panics. The sibling
  resolver \<open>ClassMember.Decl()\<close> returns the nested enum in the same situation.
\<close>

theorem EnumMember_Decl_nested_enum_panics:
  "EnumMember_arms (EnumMember pos mods None None None None (Some e) None) = [D_EnumDecl e]
   \<and> EnumMember_Decl (EnumMember pos mods None None None None (Some e) None) = PanicWith ''??''
   \<and> ClassMember_Decl (ClassMember pos mods None None None (Some e) None) = Returned (D_EnumDecl e)"
  by (simp add: EnumMember_arms_def populated_def EnumMember_Decl_def ClassMember_Decl_def)

subsection \<open>Absent optional children\<close>

text \<open>
  Claim C3 says that both traversals skip an absent optional child and complete the walk.
  The code does not, for the optional children whose accept method has a value receiver.
  A case of an enum without payload type (\<open>case A\<close>) has a nil \<open>Type\<close>; an \<open>if\<close> without
  \<open>else\<close> has a nil \<open>Else\<close>. In both, \<open>VisitFunc\<close> receives a non-nil interface holding a nil
  pointer, its test against nil fails, and the call of \<open>accept\<close> panics. This happens under
  the typed traversal with the default visitor and under the raw traversal with a visitor
  function that only calls its continuation.
\<close>

theorem absent_child_panics:
  "Visit (Dynamic (CaseDecl_accept (CaseDecl pos name None))) DefaultVisitor s = Panic s
   \<and> VisitFunc (Dynamic (CaseDecl_accept (CaseDecl pos name None))) (\<lambda>node next. next None) s
       = Panic s
   \<and> Visit (throughPointer (Some (IfStmt_accept
         (IfStmt pos (ExprNode KExpr cpos ''c'' []) (Block bpos []) None)))) DefaultVisitor s
       = Panic s
   \<and> VisitFunc (throughPointer (Some (IfStmt_accept
         (IfStmt pos (ExprNode KExpr cpos ''c'' []) (Block bpos []) None))))
         (\<lambda>node next. next None) s
       = Panic s"
  by (simp add: Visit_def VisitFunc_def CaseDecl_accept_def Visit_closure_def DefaultVisitor_def
      noop_def maybeNext_def ifNoError_def throughPointer_def Expr_accept_def nodeOfExpr_def
      thenDo_def)

subsection \<open>Pruning and aborting in the typed traversal\<close>













subsection \<open>The order of visits at a conditional\<close>

lemma typeSwitch_recorder: "typeSwitch recorder n s = (None, s @ [n])"
  by (cases n) (simp_all add: recorder_def remember_def)

lemma Visit_closure_recorder:
  "\<not> isNilPointer n \<Longrightarrow> Visit_closure recorder n next s = next None (s @ [n])"
  by (simp add: Visit_closure_def typeSwitch_recorder maybeNext_def)

lemma nodeOfExpr_not_nil: "\<not> isNilPointer (nodeOfExpr e)"
  by (cases "ExprNode_Kind e") (simp_all add: nodeOfExpr_def)

lemma forEach_recorded:
  assumes "\<And>x s. x \<in> set xs \<Longrightarrow> f x s = Ret None (s @ g x)"
  shows "forEach (map f xs) s = Ret None (s @ concat (map g xs))"
  using assms
proof (induction xs arbitrary: s)
  case Nil
  show ?case by simp
next
  case (Cons x xs)
  then show ?case by (simp add: thenDo_def)
qed

lemma ExprNode_recorded:
  "ExprNode_accept e (Visit_closure recorder) s = Ret None (s @ preorder e)"
proof (induction e arbitrary: s)
  case (ExprNode kind pos str children)
  have "forEach (map (\<lambda>c. ExprNode_accept c (Visit_closure recorder)) children) t
        = Ret None (t @ concat (map preorder children))" for t
    by (rule forEach_recorded) (simp add: ExprNode)
  then show ?case
    by (simp add: Visit_closure_recorder nodeOfExpr_not_nil ifNoError_def)
qed

text \<open>
  Claim C7. For \<open>if cond { a } else { b }\<close> the typed traversal calls the visitor first on
  the \<open>if\<close> statement, then on the nodes of the condition, then on the then-block and its
  statement \<open>a\<close>, then on the else-block and its statement \<open>b\<close>; it returns nil.
\<close>

theorem if_else_visit_order:
  "Visit (throughPointer (Some (IfStmt_accept
       (ifElse pos cond (Block p1 [exprStmt p2 a]) (Block p3 [exprStmt p4 b])))))
     recorder []
   = Ret None
      ([N_IfStmt (ifElse pos cond (Block p1 [exprStmt p2 a]) (Block p3 [exprStmt p4 b]))]
       @ preorder cond
       @ [N_Block (Block p1 [exprStmt p2 a]), N_Stmt (exprStmt p2 a)] @ preorder a
       @ [N_Block (Block p3 [exprStmt p4 b]), N_Stmt (exprStmt p4 b)] @ preorder b)"
  by (simp add: Visit_def ifElse_def exprStmt_def Visit_closure_recorder ifNoError_def
      thenDo_def Expr_accept_def ExprNode_recorded)

section \<open>Properties of the lexer\<close>

lemmas rule_defs = match_comment_def match_backslash_def match_whitespace_def
  match_Modifier_def match_Keyword_def matchWord_def match_Ident_def match_Number_def
  match_String_def match_Newline_def match_Operator_def match_Punct_def
  isAlpha_def isDigit_def isWord_def wordEnds_def

text \<open>
  Claim C4. The input \<open>a >= b\<close> lexes to the identifier \<open>a\<close>, the operator \<open>>=\<close> and the
  identifier \<open>b\<close>, followed by the end-of-input token; the stream is not the one with the two
  operators \<open>>\<close> and \<open>=\<close>. At \<open>>= b\<close> the operator rule matches two characters, because
  its two-character alternatives come first.
\<close>

theorem lex_ge_is_one_operator:
  "lexAll startPosition ''a >= b''
     = Inr [Token Ident ''a'' (Position [] 0 1 1), Token Operator ''>='' (Position [] 2 1 3),
            Token Ident ''b'' (Position [] 5 1 6), Token EOF [] (Position [] 6 1 7)]
   \<and> (\<exists>tokens. lexAll startPosition ''a >= b'' = Inr tokens
         \<and> kindsAndValues tokens = [(Ident, ''a''), (Operator, ''>=''), (Ident, ''b''), (EOF, [])]
         \<and> kindsAndValues tokens
             \<noteq> [(Ident, ''a''), (Operator, ''>''), (Operator, ''=''), (Ident, ''b''), (EOF, [])])
   \<and> match_Operator ''>= b'' = Some 2"
  by (simp add: startPosition_def lex_def rule_defs advance_def kindsAndValues_def)

subsection \<open>Unterminated string literals\<close>

lemma stringBody_unterminated: "CHR 0x22 \<notin> set r \<Longrightarrow> stringBody r = None"
proof (induction r rule: length_induct)
  case (1 r)
  show ?case
  proof (cases r)
    case Nil
    then show ?thesis by simp
  next
    case (Cons c cs)
    with 1 have c: "c \<noteq> CHR 0x22" and cs: "CHR 0x22 \<notin> set cs" by auto
    from 1 Cons cs have tail: "stringBody cs = None" by simp
    have esc: "(case cs of [] \<Rightarrow> None
                | d # ds \<Rightarrow> if d = CHR 0x0A then None
                            else map_option (\<lambda>n. n + 2) (stringBody ds)) = None"
    proof (cases cs)
      case Nil
      then show ?thesis by simp
    next
      case (Cons d ds)
      with cs have "CHR 0x22 \<notin> set ds" by simp
      moreover have "length ds < length r" using \<open>r = c # cs\<close> Cons by simp
      ultimately have "stringBody ds = None" using 1 by blast
      with Cons show ?thesis by simp
    qed
    show ?thesis unfolding Cons stringBody.simps esc using c tail by simp
  qed
qed

lemma q1: "match_comment (CHR 0x22 # r) = None" by (simp add: match_comment_def)
lemma q2: "match_backslash (CHR 0x22 # r) = None" by (simp add: match_backslash_def)
lemma q3: "match_whitespace (CHR 0x22 # r) = None" by (simp add: match_whitespace_def)
lemma q4: "match_Modifier (CHR 0x22 # r) = None" by (simp add: match_Modifier_def matchWord_def)
lemma q5: "match_Keyword (CHR 0x22 # r) = None" by (simp add: match_Keyword_def matchWord_def)
lemma q6: "match_Ident (CHR 0x22 # r) = None" by (simp add: match_Ident_def isAlpha_def)
lemma q7: "match_Number (CHR 0x22 # r) = None" by (simp add: match_Number_def isDigit_def)
lemma q8: "CHR 0x22 \<notin> set r \<Longrightarrow> match_String (CHR 0x22 # r) = None"
  by (simp add: match_String_def stringBody_unterminated)
lemma q9: "match_Newline (CHR 0x22 # r) = None" by (simp add: match_Newline_def)
lemma q10: "match_Operator (CHR 0x22 # r) = None" by (simp add: match_Operator_def)
lemma q11: "match_Punct (CHR 0x22 # r) = None" by (simp add: match_Punct_def)

lemma no_rule_at_unterminated_quote:
  "CHR 0x22 \<notin> set r \<Longrightarrow> firstRule lex (CHR 0x22 # r) = None"
  by (simp add: lex_def q1 q2 q3 q4 q5 q6 q7 q8 q9 q10 q11)

lemma lexAll_at_unterminated_quote:
  "CHR 0x22 \<notin> set r \<Longrightarrow> lexAll pos (CHR 0x22 # r) = Inl (InvalidToken pos (CHR 0x22))"
  by (simp add: no_rule_at_unterminated_quote)

lemma lexAll_after_lexSkip:
  "lexSkip k pos s = Some (pos', s') \<Longrightarrow> lexAll pos' s' = Inl e \<Longrightarrow> lexAll pos s = Inl e"
proof (induction k arbitrary: pos s)
  case 0
  then show ?case by simp
next
  case (Suc k)
  show ?case
  proof (cases s)
    case Nil
    with Suc.prems show ?thesis by (simp add: lex_def rule_defs)
  next
    case (Cons c cs)
    with Suc.prems obtain kind n where m: "firstRule lex (c # cs) = Some (kind, n)"
      and r: "lexSkip k (advance pos (take n (c # cs))) (drop n (c # cs)) = Some (pos', s')"
      by (auto split: option.splits)
    from Suc.IH[OF r Suc.prems(2)] m Cons show ?thesis by simp
  qed
qed

lemma Offset_advance: "Offset (advance pos m) = Offset pos + int (length m)"
  by (simp add: advance_def Let_def)

lemma lexSkip_consumed:
  "lexSkip k pos s = Some (pos', s') \<Longrightarrow>
     \<exists>pre. s = pre @ s' \<and> Offset pos' = Offset pos + int (length pre)"
proof (induction k arbitrary: pos s)
  case 0
  then show ?case by simp
next
  case (Suc k)
  then obtain kind n where
    r: "lexSkip k (advance pos (take n s)) (drop n s) = Some (pos', s')"
    by (auto split: option.splits)
  from Suc.IH[OF r] obtain pre where
    pre: "drop n s = pre @ s'" "Offset pos' = Offset (advance pos (take n s)) + int (length pre)"
    by blast
  have "s = (take n s @ pre) @ s'" using pre(1) by (metis append_assoc append_take_drop_id)
  moreover have "Offset pos' = Offset pos + int (length (take n s @ pre))"
    using pre(2) by (simp add: Offset_advance)
  ultimately show ?case by blast
qed

text \<open>
  When the lexer arrives at a double quote after which the input has no further double
  quote, lexing the whole input fails with the error for that quote; the position in the
  error is the position of the quote, its offset being the number of characters before it.
  No token is produced for the literal, and nothing after it is read.
\<close>

lemma unterminated_string_is_lex_error:
  assumes "lexSkip k startPosition input = Some (pos, CHR 0x22 # rest)"
    and "CHR 0x22 \<notin> set rest"
  shows "lexAll startPosition input = Inl (InvalidToken pos (CHR 0x22))
    \<and> (\<exists>pre. input = pre @ CHR 0x22 # rest \<and> Offset pos = int (length pre))"
proof -
  have "lexAll pos (CHR 0x22 # rest) = Inl (InvalidToken pos (CHR 0x22))"
    using assms(2) by (rule lexAll_at_unterminated_quote)
  with assms(1) have "lexAll startPosition input = Inl (InvalidToken pos (CHR 0x22))"
    by (rule lexAll_after_lexSkip)
  moreover from lexSkip_consumed[OF assms(1)]
  have "\<exists>pre. input = pre @ CHR 0x22 # rest \<and> Offset pos = int (length pre)"
    by (simp add: startPosition_def)
  ultimately show ?thesis by blast
qed

lemma unterminated_string_is_lex_error_example:
  "lexSkip 6 startPosition (''let s = '' @ [CHR 0x22] @ ''abc'')
     = Some (Position [] 8 1 9, CHR 0x22 # ''abc'')
   \<and> CHR 0x22 \<notin> set ''abc''
   \<and> lexAll startPosition (''let s = '' @ [CHR 0x22] @ ''abc'')
       = Inl (InvalidToken (Position [] 8 1 9) (CHR 0x22))"
proof -
  have h: "lexSkip 6 startPosition (''let s = '' @ [CHR 0x22] @ ''abc'')
     = Some (Position [] 8 1 9, CHR 0x22 # ''abc'')"
    by (simp add: eval_nat_numeral startPosition_def lex_def rule_defs advance_def)
  have q: "CHR 0x22 \<notin> set ''abc''" by simp
  from unterminated_string_is_lex_error[OF h q] h q show ?thesis by blast
qed


section \<open>Properties of the parser\<close>

text \<open>The definitions that evaluating a parse unfolds.\<close>

lemmas engine_defs = ret_def noAlternative_def bindP_def orElse_def optional_def literal_def
  token_def withPos_def separated_def body_def orEmpty_def flag_def orBlank_def
  recoverable_def lookahead_def

lemmas grammar_defs = parseTypeParamDecl_def parseTypeDecl_def parseParameters_def
  parseParameterList_def parseVarDeclAsgn_def parseVarDecl_def parseImportDecl_def
  parseCaseDecl_def parseEnumCase_def parseCaseSelect_def parseReturnStmt_def
  parseRootDecl_def parseAST_def

lemmas run_defs = ParseString_def ParseString_with_def parser_ParseString_def

lemmas parse_defs = emptyAST_def fixup_def unquote_def programOf_def startPosition_def
  grammar_defs engine_defs

subsection \<open>The separator after the last member of an enum\<close>

lemma tokens_enum_trailing:
  "lexAll startPosition ''enum E { case A; case B; }'' =
   Inr [Token Keyword ''enum'' (Position [] 0 1 1), Token Ident ''E'' (Position [] 5 1 6),
        Token Punct ''{'' (Position [] 7 1 8), Token Keyword ''case'' (Position [] 9 1 10),
        Token Ident ''A'' (Position [] 14 1 15), Token Punct '';'' (Position [] 15 1 16),
        Token Keyword ''case'' (Position [] 17 1 18), Token Ident ''B'' (Position [] 22 1 23),
        Token Punct '';'' (Position [] 23 1 24), Token Punct ''}'' (Position [] 25 1 26),
        Token EOF [] (Position [] 26 1 27)]"
  by code_simp

lemma tokens_enum_plain:
  "lexAll startPosition ''enum E { case A; case B }'' =
   Inr [Token Keyword ''enum'' (Position [] 0 1 1), Token Ident ''E'' (Position [] 5 1 6),
        Token Punct ''{'' (Position [] 7 1 8), Token Keyword ''case'' (Position [] 9 1 10),
        Token Ident ''A'' (Position [] 14 1 15), Token Punct '';'' (Position [] 15 1 16),
        Token Keyword ''case'' (Position [] 17 1 18), Token Ident ''B'' (Position [] 22 1 23),
        Token Punct ''}'' (Position [] 24 1 25), Token EOF [] (Position [] 25 1 26)]"
  by code_simp

text \<open>
  Claim C5. The inputs \<open>enum E { case A; case B; }\<close> and \<open>enum E { case A; case B }\<close>
  both parse without error, whatever the expression grammar is, and to the same tree: one
  root declaration holding the enum \<open>E\<close> with the two members \<open>case A\<close> and \<open>case B\<close>.
  The members stand at the same positions in both inputs, so the trees are equal, positions
  included.
\<close>

theorem enum_trailing_separator_same_tree:
  "ParseString pE pR (Suc (Suc (Suc n))) ''enum E { case A; case B; }''
     = (Some (programOf (RootDecl startPosition [] None None
          (Some (EnumDecl startPosition (TypeDecl (Position [] 5 1 6) ''E'' [])
             [EnumMember (Position [] 9 1 10) []
                (Some (CaseDecl (Position [] 9 1 10) ''A'' None)) None None None None None,
              EnumMember (Position [] 17 1 18) []
                (Some (CaseDecl (Position [] 17 1 18) ''B'' None)) None None None None None]))
          None None)), None)
   \<and> ParseString pE pR (Suc (Suc (Suc n))) ''enum E { case A; case B }''
     = ParseString pE pR (Suc (Suc (Suc n))) ''enum E { case A; case B; }''"
proof -
  have a: "ParseString pE pR (Suc (Suc (Suc n))) ''enum E { case A; case B; }''
     = (Some (programOf (RootDecl startPosition [] None None
          (Some (EnumDecl startPosition (TypeDecl (Position [] 5 1 6) ''E'' [])
             [EnumMember (Position [] 9 1 10) []
                (Some (CaseDecl (Position [] 9 1 10) ''A'' None)) None None None None None,
              EnumMember (Position [] 17 1 18) []
                (Some (CaseDecl (Position [] 17 1 18) ''B'' None)) None None None None None]))
          None None)), None)"
    unfolding run_defs tokens_enum_trailing by code_simp
  have b: "ParseString pE pR (Suc (Suc (Suc n))) ''enum E { case A; case B }''
     = (Some (programOf (RootDecl startPosition [] None None
          (Some (EnumDecl startPosition (TypeDecl (Position [] 5 1 6) ''E'' [])
             [EnumMember (Position [] 9 1 10) []
                (Some (CaseDecl (Position [] 9 1 10) ''A'' None)) None None None None None,
              EnumMember (Position [] 17 1 18) []
                (Some (CaseDecl (Position [] 17 1 18) ''B'' None)) None None None None None]))
          None None)), None)"
    unfolding run_defs tokens_enum_plain by code_simp
  from a b show ?thesis by simp
qed

subsection \<open>The terminator of a root declaration\<close>

text \<open>What a match of a parser built from the combinators says about its parts.\<close>

lemma bindP_Matched:
  "bindP p f ts = Matched y r \<Longrightarrow> \<exists>x mid. p ts = Matched x mid \<and> f x mid = Matched y r"
  by (simp add: bindP_def split: outcome.splits)

lemma orElse_Matched:
  "orElse p q ts = Matched x r \<Longrightarrow>
     p ts = Matched x r \<or> ((\<exists>at. p ts = Failed at \<and> recoverable ts at) \<and> q ts = Matched x r)"
  by (simp add: orElse_def split: outcome.splits if_splits)

lemma ret_Matched: "ret x ts = Matched y r \<longleftrightarrow> y = x \<and> r = ts"
  by (auto simp: ret_def)

lemma noAlternative_Matched: "noAlternative ts \<noteq> Matched x r"
  by (simp add: noAlternative_def)

lemma literal_Matched:
  "literal v ts = Matched u r \<Longrightarrow> \<exists>t. ts = t # r \<and> Token_Value t = v"
  by (simp add: literal_def split: list.splits if_splits)

lemma withPos_Matched:
  "withPos p ts = Matched x r \<Longrightarrow> \<exists>pos. p pos ts = Matched x r"
  by (auto simp: withPos_def)

lemma root_var_needs_terminator:
  assumes m: "parseRootDecl pE pR fuel ts = Matched r rest" and v: "RootDecl_Var r \<noteq> None"
  shows "\<exists>mods mid v t. many (token Modifier) ts = Matched mods mid
            \<and> parseVarDecl pE pR mid = Matched v (t # rest) \<and> Token_Value t = '';''"
proof -
  from m obtain pos mods mid where
    mods: "many (token Modifier) ts = Matched mods mid" and
    alts: "orElse (bindP (parseClassDecl pE pR fuel) (\<lambda>d.
               bindP (optional (literal '';'')) (\<lambda>_.
                 ret (RootDecl pos mods (Some d) None None None None))))
      (orElse (bindP parseImportDecl (\<lambda>d.
               bindP (optional (literal '';'')) (\<lambda>_.
                 ret (RootDecl pos mods None (Some d) None None None))))
      (orElse (bindP (parseEnumDecl pE pR fuel) (\<lambda>d.
               bindP (optional (literal '';'')) (\<lambda>_.
                 ret (RootDecl pos mods None None (Some d) None None))))
      (orElse (bindP (parseVarDecl pE pR) (\<lambda>d.
               bindP (literal '';'') (\<lambda>_.
                 ret (RootDecl pos mods None None None (Some d) None))))
      (orElse (bindP (parseFuncDecl pE pR fuel) (\<lambda>d.
               bindP (optional (literal '';'')) (\<lambda>_.
                 ret (RootDecl pos mods None None None None (Some d)))))
       noAlternative)))) mid = Matched r rest"
    unfolding parseRootDecl_def by (blast dest: withPos_Matched bindP_Matched)
  have notvar: "bindP p (\<lambda>d. bindP (optional (literal '';'')) (\<lambda>_. ret (g d))) mid \<noteq> Matched r rest"
    if "\<And>d. RootDecl_Var (g d) = None" for p :: "'a parser" and g
  proof
    assume "bindP p (\<lambda>d. bindP (optional (literal '';'')) (\<lambda>_. ret (g d))) mid = Matched r rest"
    then obtain d where "r = g d"
      by (auto dest!: bindP_Matched simp: ret_Matched)
    with that v show False by simp
  qed
  from alts have "bindP (parseVarDecl pE pR) (\<lambda>d.
               bindP (literal '';'') (\<lambda>_.
                 ret (RootDecl pos mods None None None (Some d) None))) mid = Matched r rest"
    by (auto dest!: orElse_Matched simp: notvar noAlternative_Matched)
  then obtain d mid' where d: "parseVarDecl pE pR mid = Matched d mid'"
    and l: "bindP (literal '';'') (\<lambda>_.
                 ret (RootDecl pos mods None None None (Some d) None)) mid' = Matched r rest"
    by (blast dest: bindP_Matched)
  from l obtain t where "mid' = t # rest" "Token_Value t = '';''"
    by (auto dest!: bindP_Matched literal_Matched simp: ret_Matched)
  with mods d show ?thesis by blast
qed

text \<open>
  Each root declaration starts with its own word, so a declaration that matches makes the
  alternatives before it fail at their first token.
\<close>

lemma starts_with:
  "withPos (\<lambda>pos. bindP (literal v) (f pos)) ts = Matched x r
     \<Longrightarrow> \<exists>t rest. ts = t # rest \<and> Token_Value t = v"
  by (blast dest: withPos_Matched bindP_Matched literal_Matched)

lemma other_word:
  "ts = t # rest \<Longrightarrow> Token_Value t \<noteq> v
     \<Longrightarrow> withPos (\<lambda>pos. bindP (literal v) (f pos)) ts = Failed ts"
  by (simp add: withPos_def bindP_def literal_def)

lemma recoverable_same: "recoverable ts ts"
  by (simp add: recoverable_def)

lemma optional_terminator:
  "\<exists>u. optional (literal '';'') rest = Matched u (afterTerminator rest)"
  by (cases rest)
     (simp_all add: optional_def literal_def afterTerminator_def startsWithTerminator_def
        recoverable_same)

lemma arm_optional_terminator:
  "bindP p (\<lambda>d. bindP (optional (literal '';'')) (\<lambda>_. ret (g d))) ts =
     (case p ts of Matched d rest \<Rightarrow> Matched (g d) (afterTerminator rest)
      | Failed at \<Rightarrow> Failed at | OutOfFuel \<Rightarrow> OutOfFuel)"
proof (cases "p ts")
  case (Matched d rest)
  from optional_terminator[of rest] obtain u
    where "optional (literal '';'') rest = Matched u (afterTerminator rest)" by blast
  with Matched show ?thesis by (simp add: bindP_def ret_def)
qed (simp_all add: bindP_def)

lemma arm_required_terminator:
  "bindP p (\<lambda>d. bindP (literal '';'') (\<lambda>_. ret (g d))) ts =
     (case p ts of
        Matched d rest \<Rightarrow>
          (case literal '';'' rest of Matched u r \<Rightarrow> Matched (g d) r
           | Failed at \<Rightarrow> Failed at | OutOfFuel \<Rightarrow> OutOfFuel)
      | Failed at \<Rightarrow> Failed at | OutOfFuel \<Rightarrow> OutOfFuel)"
  by (auto simp: bindP_def ret_def split: outcome.splits)

lemma starts_class:
  "parseClassDecl pE pR fuel ts = Matched d r \<Longrightarrow> \<exists>t rest. ts = t # rest \<and> Token_Value t = ''class''"
  by (cases fuel) (auto dest: starts_with)

lemma starts_enum:
  "parseEnumDecl pE pR fuel ts = Matched d r \<Longrightarrow> \<exists>t rest. ts = t # rest \<and> Token_Value t = ''enum''"
  by (cases fuel) (auto dest: starts_with)

lemma starts_func:
  "parseFuncDecl pE pR fuel ts = Matched d r \<Longrightarrow> \<exists>t rest. ts = t # rest \<and> Token_Value t = ''fn''"
  by (cases fuel) (auto dest: starts_with)

lemma starts_import:
  "parseImportDecl ts = Matched d r \<Longrightarrow> \<exists>t rest. ts = t # rest \<and> Token_Value t = ''import''"
  unfolding parseImportDecl_def by (rule starts_with)

lemma starts_var:
  "parseVarDecl pE pR ts = Matched d r \<Longrightarrow> \<exists>t rest. ts = t # rest \<and> Token_Value t = ''let''"
  unfolding parseVarDecl_def by (rule starts_with)

lemma not_class:
  "ts = t # rest \<Longrightarrow> Token_Value t \<noteq> ''class'' \<Longrightarrow> parseClassDecl pE pR (Suc n) ts = Failed ts"
  by (simp add: other_word)

lemma not_enum:
  "ts = t # rest \<Longrightarrow> Token_Value t \<noteq> ''enum'' \<Longrightarrow> parseEnumDecl pE pR (Suc n) ts = Failed ts"
  by (simp add: other_word)

lemma not_func:
  "ts = t # rest \<Longrightarrow> Token_Value t \<noteq> ''fn'' \<Longrightarrow> parseFuncDecl pE pR (Suc n) ts = Failed ts"
  by (simp add: other_word)

lemma not_import:
  "ts = t # rest \<Longrightarrow> Token_Value t \<noteq> ''import'' \<Longrightarrow> parseImportDecl ts = Failed ts"
  unfolding parseImportDecl_def by (rule other_word)

lemma not_var:
  "ts = t # rest \<Longrightarrow> Token_Value t \<noteq> ''let'' \<Longrightarrow> parseVarDecl pE pR ts = Failed ts"
  unfolding parseVarDecl_def by (rule other_word)


lemmas choice_defs = parseRootDecl_def withPos_def bindP_def[of "many (token Modifier)"]
  arm_optional_terminator arm_required_terminator orElse_def noAlternative_def recoverable_same

lemma root_class_optional_terminator:
  assumes "many (token Modifier) ts = Matched mods mid"
    and "parseClassDecl pE pR fuel mid = Matched d rest"
  shows "\<exists>pos. parseRootDecl pE pR fuel ts
           = Matched (RootDecl pos mods (Some d) None None None None) (afterTerminator rest)"
proof -
  have "parseRootDecl pE pR fuel ts
       = Matched (RootDecl (case ts of [] \<Rightarrow> Position [] 0 0 0 | t # rest \<Rightarrow> Token_Pos t) mods (Some d) None None None None) (afterTerminator rest)"
    using assms
    by (simp add: choice_defs
        del: many.simps parseClassDecl.simps parseEnumDecl.simps parseFuncDecl.simps)
  then show ?thesis by (rule exI)
qed

lemma root_import_optional_terminator:
  assumes "many (token Modifier) ts = Matched mods mid"
    and "parseImportDecl mid = Matched d rest"
  shows "\<exists>pos. parseRootDecl pE pR (Suc n) ts
           = Matched (RootDecl pos mods None (Some d) None None None) (afterTerminator rest)"
proof -
  from starts_import[OF assms(2)] obtain t r where m: "mid = t # r" "Token_Value t = ''import''"
    by blast
  have c: "parseClassDecl pE pR (Suc n) mid = Failed mid" using m by (intro not_class) auto
  have "parseRootDecl pE pR (Suc n) ts
       = Matched (RootDecl (case ts of [] \<Rightarrow> Position [] 0 0 0 | t # rest \<Rightarrow> Token_Pos t) mods None (Some d) None None None) (afterTerminator rest)"
    using assms c
    by (simp add: choice_defs
        del: many.simps parseClassDecl.simps parseEnumDecl.simps parseFuncDecl.simps)
  then show ?thesis by (rule exI)
qed

lemma root_enum_optional_terminator:
  assumes "many (token Modifier) ts = Matched mods mid"
    and "parseEnumDecl pE pR (Suc n) mid = Matched d rest"
  shows "\<exists>pos. parseRootDecl pE pR (Suc n) ts
           = Matched (RootDecl pos mods None None (Some d) None None) (afterTerminator rest)"
proof -
  from starts_enum[OF assms(2)] obtain t r where m: "mid = t # r" "Token_Value t = ''enum''"
    by blast
  have c: "parseClassDecl pE pR (Suc n) mid = Failed mid" using m by (intro not_class) auto
  have i: "parseImportDecl mid = Failed mid" using m by (intro not_import) auto
  have "parseRootDecl pE pR (Suc n) ts
       = Matched (RootDecl (case ts of [] \<Rightarrow> Position [] 0 0 0 | t # rest \<Rightarrow> Token_Pos t) mods None None (Some d) None None) (afterTerminator rest)"
    using assms c i
    by (simp add: choice_defs
        del: many.simps parseClassDecl.simps parseEnumDecl.simps parseFuncDecl.simps)
  then show ?thesis by (rule exI)
qed

lemma root_func_optional_terminator:
  assumes "many (token Modifier) ts = Matched mods mid"
    and "parseFuncDecl pE pR (Suc n) mid = Matched d rest"
  shows "\<exists>pos. parseRootDecl pE pR (Suc n) ts
           = Matched (RootDecl pos mods None None None None (Some d)) (afterTerminator rest)"
proof -
  from starts_func[OF assms(2)] obtain t r where m: "mid = t # r" "Token_Value t = ''fn''"
    by blast
  have c: "parseClassDecl pE pR (Suc n) mid = Failed mid" using m by (intro not_class) auto
  have i: "parseImportDecl mid = Failed mid" using m by (intro not_import) auto
  have e: "parseEnumDecl pE pR (Suc n) mid = Failed mid" using m by (intro not_enum) auto
  have v: "parseVarDecl pE pR mid = Failed mid" using m by (intro not_var) auto
  have "parseRootDecl pE pR (Suc n) ts
       = Matched (RootDecl (case ts of [] \<Rightarrow> Position [] 0 0 0 | t # rest \<Rightarrow> Token_Pos t) mods None None None None (Some d)) (afterTerminator rest)"
    using assms c i e v
    by (simp add: choice_defs
        del: many.simps parseClassDecl.simps parseEnumDecl.simps parseFuncDecl.simps)
  then show ?thesis by (rule exI)
qed

lemma root_var_fails_without_terminator:
  assumes "many (token Modifier) ts = Matched mods mid"
    and "parseVarDecl pE pR mid = Matched d rest"
    and "\<not> startsWithTerminator rest"
  shows "\<exists>at. parseRootDecl pE pR (Suc n) ts = Failed at"
proof -
  from starts_var[OF assms(2)] obtain t r where m: "mid = t # r" "Token_Value t = ''let''"
    by blast
  have c: "parseClassDecl pE pR (Suc n) mid = Failed mid" using m by (intro not_class) auto
  have i: "parseImportDecl mid = Failed mid" using m by (intro not_import) auto
  have e: "parseEnumDecl pE pR (Suc n) mid = Failed mid" using m by (intro not_enum) auto
  have f: "parseFuncDecl pE pR (Suc n) mid = Failed mid" using m by (intro not_func) auto
  have l: "literal '';'' rest = Failed rest"
    using assms(3) by (cases rest) (auto simp: literal_def startsWithTerminator_def)
  show ?thesis
    using assms(1,2) c i e f l
    by (simp add: choice_defs
        del: many.simps parseClassDecl.simps parseEnumDecl.simps parseFuncDecl.simps)
qed

lemma tokens_let_semi:
  "lexAll startPosition ''let x;'' =
   Inr [Token Keyword ''let'' (Position [] 0 1 1), Token Ident ''x'' (Position [] 4 1 5),
        Token Punct '';'' (Position [] 5 1 6), Token EOF [] (Position [] 6 1 7)]"
  by code_simp

lemma tokens_let_bare:
  "lexAll startPosition ''let x'' =
   Inr [Token Keyword ''let'' (Position [] 0 1 1), Token Ident ''x'' (Position [] 4 1 5),
        Token EOF [] (Position [] 5 1 6)]"
  by code_simp

lemma tokens_class_bare:
  "lexAll startPosition ''class C { }'' =
   Inr [Token Ident ''class'' (Position [] 0 1 1), Token Ident ''C'' (Position [] 6 1 7),
        Token Punct ''{'' (Position [] 8 1 9), Token Punct ''}'' (Position [] 10 1 11),
        Token EOF [] (Position [] 11 1 12)]"
  by code_simp

lemma tokens_class_semi:
  "lexAll startPosition ''class C { };'' =
   Inr [Token Ident ''class'' (Position [] 0 1 1), Token Ident ''C'' (Position [] 6 1 7),
        Token Punct ''{'' (Position [] 8 1 9), Token Punct ''}'' (Position [] 10 1 11),
        Token Punct '';'' (Position [] 11 1 12), Token EOF [] (Position [] 12 1 13)]"
  by code_simp

lemma tokens_import_bare:
  "lexAll startPosition (''import '' @ [CHR 0x22] @ ''m'' @ [CHR 0x22]) =
   Inr [Token Keyword ''import'' (Position [] 0 1 1),
        Token String [CHR 0x22, CHR ''m'', CHR 0x22] (Position [] 7 1 8),
        Token EOF [] (Position [] 10 1 11)]"
  by code_simp

lemma tokens_import_semi:
  "lexAll startPosition (''import '' @ [CHR 0x22] @ ''m'' @ [CHR 0x22] @ '';'') =
   Inr [Token Keyword ''import'' (Position [] 0 1 1),
        Token String [CHR 0x22, CHR ''m'', CHR 0x22] (Position [] 7 1 8),
        Token Punct '';'' (Position [] 10 1 11), Token EOF [] (Position [] 11 1 12)]"
  by code_simp

lemma tokens_enum_bare:
  "lexAll startPosition ''enum E { }'' =
   Inr [Token Keyword ''enum'' (Position [] 0 1 1),
        Token Ident ''E'' (Position [] 5 1 6), Token Punct ''{'' (Position [] 7 1 8),
        Token Punct ''}'' (Position [] 9 1 10), Token EOF [] (Position [] 10 1 11)]"
  by code_simp

lemma tokens_enum_semi:
  "lexAll startPosition ''enum E { };'' =
   Inr [Token Keyword ''enum'' (Position [] 0 1 1),
        Token Ident ''E'' (Position [] 5 1 6), Token Punct ''{'' (Position [] 7 1 8),
        Token Punct ''}'' (Position [] 9 1 10), Token Punct '';'' (Position [] 10 1 11),
        Token EOF [] (Position [] 11 1 12)]"
  by code_simp

lemma tokens_fn_bare:
  "lexAll startPosition ''fn f() { let x }'' =
   Inr [Token Keyword ''fn'' (Position [] 0 1 1), Token Ident ''f'' (Position [] 3 1 4),
        Token Punct ''('' (Position [] 4 1 5), Token Punct '')'' (Position [] 5 1 6),
        Token Punct ''{'' (Position [] 7 1 8),
        Token Keyword ''let'' (Position [] 9 1 10),
        Token Ident ''x'' (Position [] 13 1 14), Token Punct ''}'' (Position [] 15 1 16),
        Token EOF [] (Position [] 16 1 17)]"
  by code_simp

lemma tokens_fn_semi:
  "lexAll startPosition ''fn f() { let x };'' =
   Inr [Token Keyword ''fn'' (Position [] 0 1 1), Token Ident ''f'' (Position [] 3 1 4),
        Token Punct ''('' (Position [] 4 1 5), Token Punct '')'' (Position [] 5 1 6),
        Token Punct ''{'' (Position [] 7 1 8),
        Token Keyword ''let'' (Position [] 9 1 10),
        Token Ident ''x'' (Position [] 13 1 14), Token Punct ''}'' (Position [] 15 1 16),
        Token Punct '';'' (Position [] 16 1 17), Token EOF [] (Position [] 17 1 18)]"
  by code_simp

text \<open>
  Claim C6. At the root, \<open>let x;\<close> parses and \<open>let x\<close> does not: the parse stops at the
  end of the input, where the \<open>;\<close> is missing. A class, an import, an enum and a function
  parse to the same tree with and without a \<open>;\<close> after them. In general, for every
  expression grammar and all tokens: whenever the rule for a root declaration matches and
  fills the arm \<open>Var\<close>, the variable declaration was followed by a token \<open>;\<close>, which the
  rule consumed; whenever, after the modifiers, a class, an import, an enum or a function
  declaration matches, the rule for a root declaration matches with that declaration, and
  it consumes the token \<open>;\<close> that follows the declaration if there is one and nothing
  more if there is none; and whenever a variable declaration matches there and no \<open>;\<close>
  follows it, the rule for a root declaration fails.
\<close>

theorem let_requires_terminator_others_accept_it:
  "ParseString pE pR (Suc (Suc (Suc (Suc n)))) ''let x;''
     = (Some (programOf (RootDecl startPosition [] None None None
          (Some (VarDecl startPosition [VarDeclAsgn (Position [] 4 1 5) ''x'' None None])) None)), None)
   \<and> ParseString pE pR (Suc (Suc (Suc (Suc n)))) ''let x''
     = (Some emptyAST, Some (UnexpectedToken [Token EOF [] (Position [] 5 1 6)]))
   \<and> ParseString pE pR (Suc (Suc (Suc (Suc n)))) ''class C { }''
     = (Some (programOf (RootDecl startPosition []
          (Some (ClassDecl startPosition (TypeDecl (Position [] 6 1 7) ''C'' []) []))
          None None None None)), None)
   \<and> ParseString pE pR (Suc (Suc (Suc (Suc n)))) ''class C { };''
     = (Some (programOf (RootDecl startPosition []
          (Some (ClassDecl startPosition (TypeDecl (Position [] 6 1 7) ''C'' []) []))
          None None None None)), None)
   \<and> ParseString pE pR (Suc (Suc (Suc (Suc n)))) (''import '' @ [CHR 0x22] @ ''m'' @ [CHR 0x22])
     = (Some (programOf (RootDecl startPosition [] None
          (Some (ImportDecl startPosition [] ''m'')) None None None)), None)
   \<and> ParseString pE pR (Suc (Suc (Suc (Suc n)))) (''import '' @ [CHR 0x22] @ ''m'' @ [CHR 0x22] @ '';'')
     = (Some (programOf (RootDecl startPosition [] None
          (Some (ImportDecl startPosition [] ''m'')) None None None)), None)
   \<and> ParseString pE pR (Suc (Suc (Suc (Suc n)))) ''enum E { }''
     = (Some (programOf (RootDecl startPosition [] None None
          (Some (EnumDecl startPosition (TypeDecl (Position [] 5 1 6) ''E'' []) []))
          None None)), None)
   \<and> ParseString pE pR (Suc (Suc (Suc (Suc n)))) ''enum E { };''
     = (Some (programOf (RootDecl startPosition [] None None
          (Some (EnumDecl startPosition (TypeDecl (Position [] 5 1 6) ''E'' []) []))
          None None)), None)
   \<and> ParseString pE pR (Suc (Suc (Suc (Suc n)))) ''fn f() { let x }''
     = (Some (programOf (RootDecl startPosition [] None None None None
          (Some (FuncDecl startPosition ''f'' [] False None
             (Block (Position [] 7 1 8)
                [Stmt (Position [] 9 1 10) None None None None None
                   (Some (VarDecl (Position [] 9 1 10)
                      [VarDeclAsgn (Position [] 13 1 14) ''x'' None None]))
                   None None None None]))))), None)
   \<and> ParseString pE pR (Suc (Suc (Suc (Suc n)))) ''fn f() { let x };''
     = (Some (programOf (RootDecl startPosition [] None None None None
          (Some (FuncDecl startPosition ''f'' [] False None
             (Block (Position [] 7 1 8)
                [Stmt (Position [] 9 1 10) None None None None None
                   (Some (VarDecl (Position [] 9 1 10)
                      [VarDeclAsgn (Position [] 13 1 14) ''x'' None None]))
                   None None None None]))))), None)
   \<and> (\<forall>ts r rest. parseRootDecl pE pR fuel ts = Matched r rest \<and> RootDecl_Var r \<noteq> None \<longrightarrow>
        (\<exists>mods mid v t. many (token Modifier) ts = Matched mods mid
            \<and> parseVarDecl pE pR mid = Matched v (t # rest) \<and> Token_Value t = '';''))
   \<and> (\<forall>ts mods mid d rest. many (token Modifier) ts = Matched mods mid
          \<and> parseClassDecl pE pR (Suc m) mid = Matched d rest \<longrightarrow>
        (\<exists>pos. parseRootDecl pE pR (Suc m) ts
           = Matched (RootDecl pos mods (Some d) None None None None) (afterTerminator rest)))
   \<and> (\<forall>ts mods mid d rest. many (token Modifier) ts = Matched mods mid
          \<and> parseImportDecl mid = Matched d rest \<longrightarrow>
        (\<exists>pos. parseRootDecl pE pR (Suc m) ts
           = Matched (RootDecl pos mods None (Some d) None None None) (afterTerminator rest)))
   \<and> (\<forall>ts mods mid d rest. many (token Modifier) ts = Matched mods mid
          \<and> parseEnumDecl pE pR (Suc m) mid = Matched d rest \<longrightarrow>
        (\<exists>pos. parseRootDecl pE pR (Suc m) ts
           = Matched (RootDecl pos mods None None (Some d) None None) (afterTerminator rest)))
   \<and> (\<forall>ts mods mid d rest. many (token Modifier) ts = Matched mods mid
          \<and> parseFuncDecl pE pR (Suc m) mid = Matched d rest \<longrightarrow>
        (\<exists>pos. parseRootDecl pE pR (Suc m) ts
           = Matched (RootDecl pos mods None None None None (Some d)) (afterTerminator rest)))
   \<and> (\<forall>ts mods mid d rest. many (token Modifier) ts = Matched mods mid
          \<and> parseVarDecl pE pR mid = Matched d rest \<and> \<not> startsWithTerminator rest \<longrightarrow>
        (\<exists>at. parseRootDecl pE pR (Suc m) ts = Failed at))"
proof -
  have f0: "ParseString pE pR (Suc (Suc (Suc (Suc n)))) ''let x;''
     = (Some (programOf (RootDecl startPosition [] None None None
          (Some (VarDecl startPosition [VarDeclAsgn (Position [] 4 1 5) ''x'' None None])) None)), None)"
    unfolding run_defs tokens_let_semi by code_simp
  have f1: "ParseString pE pR (Suc (Suc (Suc (Suc n)))) ''let x''
     = (Some emptyAST, Some (UnexpectedToken [Token EOF [] (Position [] 5 1 6)]))"
    unfolding run_defs tokens_let_bare by code_simp
  have f2: "ParseString pE pR (Suc (Suc (Suc (Suc n)))) ''class C { }''
     = (Some (programOf (RootDecl startPosition []
          (Some (ClassDecl startPosition (TypeDecl (Position [] 6 1 7) ''C'' []) []))
          None None None None)), None)"
    unfolding run_defs tokens_class_bare by code_simp
  have f3: "ParseString pE pR (Suc (Suc (Suc (Suc n)))) ''class C { };''
     = (Some (programOf (RootDecl startPosition []
          (Some (ClassDecl startPosition (TypeDecl (Position [] 6 1 7) ''C'' []) []))
          None None None None)), None)"
    unfolding run_defs tokens_class_semi by code_simp
  have f4: "ParseString pE pR (Suc (Suc (Suc (Suc n)))) (''import '' @ [CHR 0x22] @ ''m'' @ [CHR 0x22])
     = (Some (programOf (RootDecl startPosition [] None
          (Some (ImportDecl startPosition [] ''m'')) None None None)), None)"
    unfolding run_defs tokens_import_bare by code_simp
  have f5: "ParseString pE pR (Suc (Suc (Suc (Suc n)))) (''import '' @ [CHR 0x22] @ ''m'' @ [CHR 0x22] @ '';'')
     = (Some (programOf (RootDecl startPosition [] None
          (Some (ImportDecl startPosition [] ''m'')) None None None)), None)"
    unfolding run_defs tokens_import_semi by code_simp
  have f6: "ParseString pE pR (Suc (Suc (Suc (Suc n)))) ''enum E { }''
     = (Some (programOf (RootDecl startPosition [] None None
          (Some (EnumDecl startPosition (TypeDecl (Position [] 5 1 6) ''E'' []) []))
          None None)), None)"
    unfolding run_defs tokens_enum_bare by code_simp
  have f7: "ParseString pE pR (Suc (Suc (Suc (Suc n)))) ''enum E { };''
     = (Some (programOf (RootDecl startPosition [] None None
          (Some (EnumDecl startPosition (TypeDecl (Position [] 5 1 6) ''E'' []) []))
          None None)), None)"
    unfolding run_defs tokens_enum_semi by code_simp
  have f8: "ParseString pE pR (Suc (Suc (Suc (Suc n)))) ''fn f() { let x }''
     = (Some (programOf (RootDecl startPosition [] None None None None
          (Some (FuncDecl startPosition ''f'' [] False None
             (Block (Position [] 7 1 8)
                [Stmt (Position [] 9 1 10) None None None None None
                   (Some (VarDecl (Position [] 9 1 10)
                      [VarDeclAsgn (Position [] 13 1 14) ''x'' None None]))
                   None None None None]))))), None)"
    unfolding run_defs tokens_fn_bare by code_simp
  have f9: "ParseString pE pR (Suc (Suc (Suc (Suc n)))) ''fn f() { let x };''
     = (Some (programOf (RootDecl startPosition [] None None None None
          (Some (FuncDecl startPosition ''f'' [] False None
             (Block (Position [] 7 1 8)
                [Stmt (Position [] 9 1 10) None None None None None
                   (Some (VarDecl (Position [] 9 1 10)
                      [VarDeclAsgn (Position [] 13 1 14) ''x'' None None]))
                   None None None None]))))), None)"
    unfolding run_defs tokens_fn_semi by code_simp
  have g: "(\<forall>ts r rest. parseRootDecl pE pR fuel ts = Matched r rest \<and> RootDecl_Var r \<noteq> None \<longrightarrow>
        (\<exists>mods mid v t. many (token Modifier) ts = Matched mods mid
            \<and> parseVarDecl pE pR mid = Matched v (t # rest) \<and> Token_Value t = '';''))"
    by (blast dest: root_var_needs_terminator)
  have o0: "(\<forall>ts mods mid d rest. many (token Modifier) ts = Matched mods mid
          \<and> parseClassDecl pE pR (Suc m) mid = Matched d rest \<longrightarrow>
        (\<exists>pos. parseRootDecl pE pR (Suc m) ts
           = Matched (RootDecl pos mods (Some d) None None None None) (afterTerminator rest)))"
    by (blast intro: root_class_optional_terminator)
  have o1: "(\<forall>ts mods mid d rest. many (token Modifier) ts = Matched mods mid
          \<and> parseImportDecl mid = Matched d rest \<longrightarrow>
        (\<exists>pos. parseRootDecl pE pR (Suc m) ts
           = Matched (RootDecl pos mods None (Some d) None None None) (afterTerminator rest)))"
    by (blast intro: root_import_optional_terminator)
  have o2: "(\<forall>ts mods mid d rest. many (token Modifier) ts = Matched mods mid
          \<and> parseEnumDecl pE pR (Suc m) mid = Matched d rest \<longrightarrow>
        (\<exists>pos. parseRootDecl pE pR (Suc m) ts
           = Matched (RootDecl pos mods None None (Some d) None None) (afterTerminator rest)))"
    by (blast intro: root_enum_optional_terminator)
  have o3: "(\<forall>ts mods mid d rest. many (token Modifier) ts = Matched mods mid
          \<and> parseFuncDecl pE pR (Suc m) mid = Matched d rest \<longrightarrow>
        (\<exists>pos. parseRootDecl pE pR (Suc m) ts
           = Matched (RootDecl pos mods None None None None (Some d)) (afterTerminator rest)))"
    by (blast intro: root_func_optional_terminator)
  have o4: "(\<forall>ts mods mid d rest. many (token Modifier) ts = Matched mods mid
          \<and> parseVarDecl pE pR mid = Matched d rest \<and> \<not> startsWithTerminator rest \<longrightarrow>
        (\<exists>at. parseRootDecl pE pR (Suc m) ts = Failed at))"
    by (blast intro: root_var_fails_without_terminator)
  from f0 f1 f2 f3 f4 f5 f6 f7 f8 f9 g o0 o1 o2 o3 o4 show ?thesis by (intro conjI)
qed

theorem let_requires_terminator_others_accept_it_witness:
  "parseRootDecl noAlternative noAlternative (Suc 0)
      [Token Keyword ''let'' (Position [] 0 1 1), Token Ident ''x'' (Position [] 4 1 5),
       Token Punct '';'' (Position [] 5 1 6), Token EOF [] (Position [] 6 1 7)]
     = Matched (RootDecl (Position [] 0 1 1) [] None None None
          (Some (VarDecl (Position [] 0 1 1) [VarDeclAsgn (Position [] 4 1 5) ''x'' None None]))
          None) [Token EOF [] (Position [] 6 1 7)]
   \<and> (\<exists>mods mid v t. many (token Modifier)
      [Token Keyword ''let'' (Position [] 0 1 1), Token Ident ''x'' (Position [] 4 1 5),
       Token Punct '';'' (Position [] 5 1 6), Token EOF [] (Position [] 6 1 7)]
          = Matched mods mid
        \<and> parseVarDecl noAlternative noAlternative mid
          = Matched v (t # [Token EOF [] (Position [] 6 1 7)])
        \<and> Token_Value t = '';'')
   \<and> many (token Modifier)
      [Token Ident ''class'' (Position [] 0 1 1), Token Ident ''C'' (Position [] 6 1 7),
       Token Punct ''{'' (Position [] 8 1 9), Token Punct ''}'' (Position [] 10 1 11),
       Token Punct '';'' (Position [] 11 1 12), Token EOF [] (Position [] 12 1 13)]
     = Matched []
      [Token Ident ''class'' (Position [] 0 1 1), Token Ident ''C'' (Position [] 6 1 7),
       Token Punct ''{'' (Position [] 8 1 9), Token Punct ''}'' (Position [] 10 1 11),
       Token Punct '';'' (Position [] 11 1 12), Token EOF [] (Position [] 12 1 13)]
   \<and> parseClassDecl noAlternative noAlternative (Suc (Suc (Suc (Suc 0))))
      [Token Ident ''class'' (Position [] 0 1 1), Token Ident ''C'' (Position [] 6 1 7),
       Token Punct ''{'' (Position [] 8 1 9), Token Punct ''}'' (Position [] 10 1 11),
       Token Punct '';'' (Position [] 11 1 12), Token EOF [] (Position [] 12 1 13)]
     = Matched (ClassDecl (Position [] 0 1 1) (TypeDecl (Position [] 6 1 7) ''C'' []) [])
      [Token Punct '';'' (Position [] 11 1 12), Token EOF [] (Position [] 12 1 13)]
   \<and> (\<exists>pos. parseRootDecl noAlternative noAlternative (Suc (Suc (Suc (Suc 0))))
      [Token Ident ''class'' (Position [] 0 1 1), Token Ident ''C'' (Position [] 6 1 7),
       Token Punct ''{'' (Position [] 8 1 9), Token Punct ''}'' (Position [] 10 1 11),
       Token Punct '';'' (Position [] 11 1 12), Token EOF [] (Position [] 12 1 13)]
     = Matched (RootDecl pos [] (Some (ClassDecl (Position [] 0 1 1) (TypeDecl (Position [] 6 1 7) ''C'' []) [])) None None None None)
      (afterTerminator [Token Punct '';'' (Position [] 11 1 12), Token EOF [] (Position [] 12 1 13)]))
   \<and> many (token Modifier)
      [Token Keyword ''import'' (Position [] 0 1 1), Token String ''m'' (Position [] 7 1 8),
       Token EOF [] (Position [] 10 1 11)]
     = Matched []
      [Token Keyword ''import'' (Position [] 0 1 1), Token String ''m'' (Position [] 7 1 8),
       Token EOF [] (Position [] 10 1 11)]
   \<and> parseImportDecl
      [Token Keyword ''import'' (Position [] 0 1 1), Token String ''m'' (Position [] 7 1 8),
       Token EOF [] (Position [] 10 1 11)]
     = Matched (ImportDecl (Position [] 0 1 1) [] ''m'')
      [Token EOF [] (Position [] 10 1 11)]
   \<and> (\<exists>pos. parseRootDecl noAlternative noAlternative (Suc (Suc (Suc (Suc 0))))
      [Token Keyword ''import'' (Position [] 0 1 1), Token String ''m'' (Position [] 7 1 8),
       Token EOF [] (Position [] 10 1 11)]
     = Matched (RootDecl pos [] None (Some (ImportDecl (Position [] 0 1 1) [] ''m'')) None None None)
      (afterTerminator [Token EOF [] (Position [] 10 1 11)]))
   \<and> many (token Modifier)
      [Token Keyword ''enum'' (Position [] 0 1 1), Token Ident ''E'' (Position [] 5 1 6),
       Token Punct ''{'' (Position [] 7 1 8), Token Punct ''}'' (Position [] 9 1 10),
       Token Punct '';'' (Position [] 10 1 11), Token EOF [] (Position [] 11 1 12)]
     = Matched []
      [Token Keyword ''enum'' (Position [] 0 1 1), Token Ident ''E'' (Position [] 5 1 6),
       Token Punct ''{'' (Position [] 7 1 8), Token Punct ''}'' (Position [] 9 1 10),
       Token Punct '';'' (Position [] 10 1 11), Token EOF [] (Position [] 11 1 12)]
   \<and> parseEnumDecl noAlternative noAlternative (Suc (Suc (Suc (Suc 0))))
      [Token Keyword ''enum'' (Position [] 0 1 1), Token Ident ''E'' (Position [] 5 1 6),
       Token Punct ''{'' (Position [] 7 1 8), Token Punct ''}'' (Position [] 9 1 10),
       Token Punct '';'' (Position [] 10 1 11), Token EOF [] (Position [] 11 1 12)]
     = Matched (EnumDecl (Position [] 0 1 1) (TypeDecl (Position [] 5 1 6) ''E'' []) [])
      [Token Punct '';'' (Position [] 10 1 11), Token EOF [] (Position [] 11 1 12)]
   \<and> (\<exists>pos. parseRootDecl noAlternative noAlternative (Suc (Suc (Suc (Suc 0))))
      [Token Keyword ''enum'' (Position [] 0 1 1), Token Ident ''E'' (Position [] 5 1 6),
       Token Punct ''{'' (Position [] 7 1 8), Token Punct ''}'' (Position [] 9 1 10),
       Token Punct '';'' (Position [] 10 1 11), Token EOF [] (Position [] 11 1 12)]
     = Matched (RootDecl pos [] None None (Some (EnumDecl (Position [] 0 1 1) (TypeDecl (Position [] 5 1 6) ''E'' []) [])) None None)
      (afterTerminator [Token Punct '';'' (Position [] 10 1 11), Token EOF [] (Position [] 11 1 12)]))
   \<and> many (token Modifier)
      [Token Keyword ''fn'' (Position [] 0 1 1), Token Ident ''f'' (Position [] 3 1 4),
       Token Punct ''('' (Position [] 4 1 5), Token Punct '')'' (Position [] 5 1 6),
       Token Punct ''{'' (Position [] 7 1 8), Token Punct ''}'' (Position [] 9 1 10),
       Token EOF [] (Position [] 10 1 11)]
     = Matched []
      [Token Keyword ''fn'' (Position [] 0 1 1), Token Ident ''f'' (Position [] 3 1 4),
       Token Punct ''('' (Position [] 4 1 5), Token Punct '')'' (Position [] 5 1 6),
       Token Punct ''{'' (Position [] 7 1 8), Token Punct ''}'' (Position [] 9 1 10),
       Token EOF [] (Position [] 10 1 11)]
   \<and> parseFuncDecl noAlternative noAlternative (Suc (Suc (Suc (Suc 0))))
      [Token Keyword ''fn'' (Position [] 0 1 1), Token Ident ''f'' (Position [] 3 1 4),
       Token Punct ''('' (Position [] 4 1 5), Token Punct '')'' (Position [] 5 1 6),
       Token Punct ''{'' (Position [] 7 1 8), Token Punct ''}'' (Position [] 9 1 10),
       Token EOF [] (Position [] 10 1 11)]
     = Matched (FuncDecl (Position [] 0 1 1) ''f'' [] False None (Block (Position [] 7 1 8) []))
      [Token EOF [] (Position [] 10 1 11)]
   \<and> (\<exists>pos. parseRootDecl noAlternative noAlternative (Suc (Suc (Suc (Suc 0))))
      [Token Keyword ''fn'' (Position [] 0 1 1), Token Ident ''f'' (Position [] 3 1 4),
       Token Punct ''('' (Position [] 4 1 5), Token Punct '')'' (Position [] 5 1 6),
       Token Punct ''{'' (Position [] 7 1 8), Token Punct ''}'' (Position [] 9 1 10),
       Token EOF [] (Position [] 10 1 11)]
     = Matched (RootDecl pos [] None None None None (Some (FuncDecl (Position [] 0 1 1) ''f'' [] False None (Block (Position [] 7 1 8) []))))
      (afterTerminator [Token EOF [] (Position [] 10 1 11)]))
   \<and> many (token Modifier)
      [Token Keyword ''let'' (Position [] 0 1 1), Token Ident ''x'' (Position [] 4 1 5),
       Token EOF [] (Position [] 5 1 6)]
     = Matched []
      [Token Keyword ''let'' (Position [] 0 1 1), Token Ident ''x'' (Position [] 4 1 5),
       Token EOF [] (Position [] 5 1 6)]
   \<and> parseVarDecl noAlternative noAlternative
      [Token Keyword ''let'' (Position [] 0 1 1), Token Ident ''x'' (Position [] 4 1 5),
       Token EOF [] (Position [] 5 1 6)]
     = Matched (VarDecl (Position [] 0 1 1) [VarDeclAsgn (Position [] 4 1 5) ''x'' None None])
      [Token EOF [] (Position [] 5 1 6)]
   \<and> \<not> startsWithTerminator [Token EOF [] (Position [] 5 1 6)]
   \<and> (\<exists>at. parseRootDecl noAlternative noAlternative (Suc (Suc (Suc (Suc 0))))
      [Token Keyword ''let'' (Position [] 0 1 1), Token Ident ''x'' (Position [] 4 1 5),
       Token EOF [] (Position [] 5 1 6)] = Failed at)
   \<and> afterTerminator [Token Punct '';'' (Position [] 11 1 12), Token EOF [] (Position [] 12 1 13)] = [Token EOF [] (Position [] 12 1 13)]
   \<and> afterTerminator [Token EOF [] (Position [] 10 1 11)] = [Token EOF [] (Position [] 10 1 11)]"
proof -
  note general = let_requires_terminator_others_accept_it
    [where pE = noAlternative and pR = noAlternative and n = 0 and fuel = "Suc 0"
       and m = "Suc (Suc (Suc 0))"]
  have m: "parseRootDecl noAlternative noAlternative (Suc 0)
      [Token Keyword ''let'' (Position [] 0 1 1), Token Ident ''x'' (Position [] 4 1 5),
       Token Punct '';'' (Position [] 5 1 6), Token EOF [] (Position [] 6 1 7)]
     = Matched (RootDecl (Position [] 0 1 1) [] None None None
          (Some (VarDecl (Position [] 0 1 1) [VarDeclAsgn (Position [] 4 1 5) ''x'' None None]))
          None) [Token EOF [] (Position [] 6 1 7)]"
    by code_simp
  have v: "RootDecl_Var (RootDecl (Position [] 0 1 1) [] None None None
          (Some (VarDecl (Position [] 0 1 1) [VarDeclAsgn (Position [] 4 1 5) ''x'' None None]))
          None) \<noteq> None" by simp
  from general
  have "\<forall>ts r rest. parseRootDecl noAlternative noAlternative (Suc 0) ts = Matched r rest
          \<and> RootDecl_Var r \<noteq> None \<longrightarrow>
        (\<exists>mods mid v t. many (token Modifier) ts = Matched mods mid
            \<and> parseVarDecl noAlternative noAlternative mid = Matched v (t # rest)
            \<and> Token_Value t = '';'')"
    by (elim conjE)
  with m v have w0: "\<exists>mods mid v t. many (token Modifier)
      [Token Keyword ''let'' (Position [] 0 1 1), Token Ident ''x'' (Position [] 4 1 5),
       Token Punct '';'' (Position [] 5 1 6), Token EOF [] (Position [] 6 1 7)]
          = Matched mods mid
        \<and> parseVarDecl noAlternative noAlternative mid
          = Matched v (t # [Token EOF [] (Position [] 6 1 7)])
        \<and> Token_Value t = '';''"
    by blast
  have c1: "many (token Modifier)
      [Token Ident ''class'' (Position [] 0 1 1), Token Ident ''C'' (Position [] 6 1 7),
       Token Punct ''{'' (Position [] 8 1 9), Token Punct ''}'' (Position [] 10 1 11),
       Token Punct '';'' (Position [] 11 1 12), Token EOF [] (Position [] 12 1 13)]
     = Matched []
      [Token Ident ''class'' (Position [] 0 1 1), Token Ident ''C'' (Position [] 6 1 7),
       Token Punct ''{'' (Position [] 8 1 9), Token Punct ''}'' (Position [] 10 1 11),
       Token Punct '';'' (Position [] 11 1 12), Token EOF [] (Position [] 12 1 13)]"
    by code_simp
  have c2: "parseClassDecl noAlternative noAlternative (Suc (Suc (Suc (Suc 0))))
      [Token Ident ''class'' (Position [] 0 1 1), Token Ident ''C'' (Position [] 6 1 7),
       Token Punct ''{'' (Position [] 8 1 9), Token Punct ''}'' (Position [] 10 1 11),
       Token Punct '';'' (Position [] 11 1 12), Token EOF [] (Position [] 12 1 13)]
     = Matched (ClassDecl (Position [] 0 1 1) (TypeDecl (Position [] 6 1 7) ''C'' []) [])
      [Token Punct '';'' (Position [] 11 1 12), Token EOF [] (Position [] 12 1 13)]"
    by code_simp
  from general
  have "\<forall>ts mods mid d rest. many (token Modifier) ts = Matched mods mid
          \<and> parseClassDecl noAlternative noAlternative (Suc (Suc (Suc (Suc 0)))) mid = Matched d rest \<longrightarrow>
        (\<exists>pos. parseRootDecl noAlternative noAlternative (Suc (Suc (Suc (Suc 0)))) ts
           = Matched (RootDecl pos mods (Some d) None None None None) (afterTerminator rest))"
    by (elim conjE)
  with c1 c2 have c3: "\<exists>pos. parseRootDecl noAlternative noAlternative (Suc (Suc (Suc (Suc 0))))
      [Token Ident ''class'' (Position [] 0 1 1), Token Ident ''C'' (Position [] 6 1 7),
       Token Punct ''{'' (Position [] 8 1 9), Token Punct ''}'' (Position [] 10 1 11),
       Token Punct '';'' (Position [] 11 1 12), Token EOF [] (Position [] 12 1 13)]
     = Matched (RootDecl pos [] (Some (ClassDecl (Position [] 0 1 1) (TypeDecl (Position [] 6 1 7) ''C'' []) [])) None None None None)
      (afterTerminator [Token Punct '';'' (Position [] 11 1 12), Token EOF [] (Position [] 12 1 13)])"
    by blast
  have i1: "many (token Modifier)
      [Token Keyword ''import'' (Position [] 0 1 1), Token String ''m'' (Position [] 7 1 8),
       Token EOF [] (Position [] 10 1 11)]
     = Matched []
      [Token Keyword ''import'' (Position [] 0 1 1), Token String ''m'' (Position [] 7 1 8),
       Token EOF [] (Position [] 10 1 11)]"
    by code_simp
  have i2: "parseImportDecl
      [Token Keyword ''import'' (Position [] 0 1 1), Token String ''m'' (Position [] 7 1 8),
       Token EOF [] (Position [] 10 1 11)]
     = Matched (ImportDecl (Position [] 0 1 1) [] ''m'')
      [Token EOF [] (Position [] 10 1 11)]"
    by code_simp
  from general
  have "\<forall>ts mods mid d rest. many (token Modifier) ts = Matched mods mid
          \<and> parseImportDecl mid = Matched d rest \<longrightarrow>
        (\<exists>pos. parseRootDecl noAlternative noAlternative (Suc (Suc (Suc (Suc 0)))) ts
           = Matched (RootDecl pos mods None (Some d) None None None) (afterTerminator rest))"
    by (elim conjE)
  with i1 i2 have i3: "\<exists>pos. parseRootDecl noAlternative noAlternative (Suc (Suc (Suc (Suc 0))))
      [Token Keyword ''import'' (Position [] 0 1 1), Token String ''m'' (Position [] 7 1 8),
       Token EOF [] (Position [] 10 1 11)]
     = Matched (RootDecl pos [] None (Some (ImportDecl (Position [] 0 1 1) [] ''m'')) None None None)
      (afterTerminator [Token EOF [] (Position [] 10 1 11)])"
    by blast
  have e1: "many (token Modifier)
      [Token Keyword ''enum'' (Position [] 0 1 1), Token Ident ''E'' (Position [] 5 1 6),
       Token Punct ''{'' (Position [] 7 1 8), Token Punct ''}'' (Position [] 9 1 10),
       Token Punct '';'' (Position [] 10 1 11), Token EOF [] (Position [] 11 1 12)]
     = Matched []
      [Token Keyword ''enum'' (Position [] 0 1 1), Token Ident ''E'' (Position [] 5 1 6),
       Token Punct ''{'' (Position [] 7 1 8), Token Punct ''}'' (Position [] 9 1 10),
       Token Punct '';'' (Position [] 10 1 11), Token EOF [] (Position [] 11 1 12)]"
    by code_simp
  have e2: "parseEnumDecl noAlternative noAlternative (Suc (Suc (Suc (Suc 0))))
      [Token Keyword ''enum'' (Position [] 0 1 1), Token Ident ''E'' (Position [] 5 1 6),
       Token Punct ''{'' (Position [] 7 1 8), Token Punct ''}'' (Position [] 9 1 10),
       Token Punct '';'' (Position [] 10 1 11), Token EOF [] (Position [] 11 1 12)]
     = Matched (EnumDecl (Position [] 0 1 1) (TypeDecl (Position [] 5 1 6) ''E'' []) [])
      [Token Punct '';'' (Position [] 10 1 11), Token EOF [] (Position [] 11 1 12)]"
    by code_simp
  from general
  have "\<forall>ts mods mid d rest. many (token Modifier) ts = Matched mods mid
          \<and> parseEnumDecl noAlternative noAlternative (Suc (Suc (Suc (Suc 0)))) mid = Matched d rest \<longrightarrow>
        (\<exists>pos. parseRootDecl noAlternative noAlternative (Suc (Suc (Suc (Suc 0)))) ts
           = Matched (RootDecl pos mods None None (Some d) None None) (afterTerminator rest))"
    by (elim conjE)
  with e1 e2 have e3: "\<exists>pos. parseRootDecl noAlternative noAlternative (Suc (Suc (Suc (Suc 0))))
      [Token Keyword ''enum'' (Position [] 0 1 1), Token Ident ''E'' (Position [] 5 1 6),
       Token Punct ''{'' (Position [] 7 1 8), Token Punct ''}'' (Position [] 9 1 10),
       Token Punct '';'' (Position [] 10 1 11), Token EOF [] (Position [] 11 1 12)]
     = Matched (RootDecl pos [] None None (Some (EnumDecl (Position [] 0 1 1) (TypeDecl (Position [] 5 1 6) ''E'' []) [])) None None)
      (afterTerminator [Token Punct '';'' (Position [] 10 1 11), Token EOF [] (Position [] 11 1 12)])"
    by blast
  have f1: "many (token Modifier)
      [Token Keyword ''fn'' (Position [] 0 1 1), Token Ident ''f'' (Position [] 3 1 4),
       Token Punct ''('' (Position [] 4 1 5), Token Punct '')'' (Position [] 5 1 6),
       Token Punct ''{'' (Position [] 7 1 8), Token Punct ''}'' (Position [] 9 1 10),
       Token EOF [] (Position [] 10 1 11)]
     = Matched []
      [Token Keyword ''fn'' (Position [] 0 1 1), Token Ident ''f'' (Position [] 3 1 4),
       Token Punct ''('' (Position [] 4 1 5), Token Punct '')'' (Position [] 5 1 6),
       Token Punct ''{'' (Position [] 7 1 8), Token Punct ''}'' (Position [] 9 1 10),
       Token EOF [] (Position [] 10 1 11)]"
    by code_simp
  have f2: "parseFuncDecl noAlternative noAlternative (Suc (Suc (Suc (Suc 0))))
      [Token Keyword ''fn'' (Position [] 0 1 1), Token Ident ''f'' (Position [] 3 1 4),
       Token Punct ''('' (Position [] 4 1 5), Token Punct '')'' (Position [] 5 1 6),
       Token Punct ''{'' (Position [] 7 1 8), Token Punct ''}'' (Position [] 9 1 10),
       Token EOF [] (Position [] 10 1 11)]
     = Matched (FuncDecl (Position [] 0 1 1) ''f'' [] False None (Block (Position [] 7 1 8) []))
      [Token EOF [] (Position [] 10 1 11)]"
    by code_simp
  from general
  have "\<forall>ts mods mid d rest. many (token Modifier) ts = Matched mods mid
          \<and> parseFuncDecl noAlternative noAlternative (Suc (Suc (Suc (Suc 0)))) mid = Matched d rest \<longrightarrow>
        (\<exists>pos. parseRootDecl noAlternative noAlternative (Suc (Suc (Suc (Suc 0)))) ts
           = Matched (RootDecl pos mods None None None None (Some d)) (afterTerminator rest))"
    by (elim conjE)
  with f1 f2 have f3: "\<exists>pos. parseRootDecl noAlternative noAlternative (Suc (Suc (Suc (Suc 0))))
      [Token Keyword ''fn'' (Position [] 0 1 1), Token Ident ''f'' (Position [] 3 1 4),
       Token Punct ''('' (Position [] 4 1 5), Token Punct '')'' (Position [] 5 1 6),
       Token Punct ''{'' (Position [] 7 1 8), Token Punct ''}'' (Position [] 9 1 10),
       Token EOF [] (Position [] 10 1 11)]
     = Matched (RootDecl pos [] None None None None (Some (FuncDecl (Position [] 0 1 1) ''f'' [] False None (Block (Position [] 7 1 8) []))))
      (afterTerminator [Token EOF [] (Position [] 10 1 11)])"
    by blast
  have l1: "many (token Modifier)
      [Token Keyword ''let'' (Position [] 0 1 1), Token Ident ''x'' (Position [] 4 1 5),
       Token EOF [] (Position [] 5 1 6)]
     = Matched []
      [Token Keyword ''let'' (Position [] 0 1 1), Token Ident ''x'' (Position [] 4 1 5),
       Token EOF [] (Position [] 5 1 6)]"
    by code_simp
  have l2: "parseVarDecl noAlternative noAlternative
      [Token Keyword ''let'' (Position [] 0 1 1), Token Ident ''x'' (Position [] 4 1 5),
       Token EOF [] (Position [] 5 1 6)]
     = Matched (VarDecl (Position [] 0 1 1) [VarDeclAsgn (Position [] 4 1 5) ''x'' None None])
      [Token EOF [] (Position [] 5 1 6)]"
    by code_simp
  have l3: "\<not> startsWithTerminator [Token EOF [] (Position [] 5 1 6)]"
    by (simp add: startsWithTerminator_def)
  from general
  have "\<forall>ts mods mid d rest. many (token Modifier) ts = Matched mods mid
          \<and> parseVarDecl noAlternative noAlternative mid = Matched d rest \<and> \<not> startsWithTerminator rest \<longrightarrow>
        (\<exists>at. parseRootDecl noAlternative noAlternative (Suc (Suc (Suc (Suc 0)))) ts = Failed at)"
    by (elim conjE)
  with l1 l2 l3 have l4: "\<exists>at. parseRootDecl noAlternative noAlternative (Suc (Suc (Suc (Suc 0))))
      [Token Keyword ''let'' (Position [] 0 1 1), Token Ident ''x'' (Position [] 4 1 5),
       Token EOF [] (Position [] 5 1 6)] = Failed at"
    by blast
  have a1: "afterTerminator [Token Punct '';'' (Position [] 11 1 12), Token EOF [] (Position [] 12 1 13)] = [Token EOF [] (Position [] 12 1 13)]"
    by (simp add: afterTerminator_def startsWithTerminator_def)
  have a2: "afterTerminator [Token EOF [] (Position [] 10 1 11)] = [Token EOF [] (Position [] 10 1 11)]"
    by (simp add: afterTerminator_def startsWithTerminator_def)
  from m w0 c1 c2 c3 i1 i2 i3 e1 e2 e3 f1 f2 f3 l1 l2 l3 l4 a1 a2 show ?thesis by (intro conjI)
qed

subsection \<open>The alternatives of a statement\<close>

text \<open>An ordered choice matches by its first alternative that does; the ones before it failed.\<close>

lemma arm_Matched:
  "bindP p (\<lambda>x. ret (g x)) ts = Matched s r \<longleftrightarrow> (\<exists>x. p ts = Matched x r \<and> s = g x)"
  by (auto simp: bindP_def ret_def split: outcome.splits)

lemma arm_hit:
  "bindP p (\<lambda>x. ret (g x)) ts = Matched s r \<Longrightarrow> \<exists>x. p ts = Matched x r \<and> s = g x"
  by (simp add: arm_Matched)

lemma arm_Failed:
  "bindP p (\<lambda>x. ret (g x)) ts = Failed at \<longleftrightarrow> p ts = Failed at"
  by (auto simp: bindP_def ret_def split: outcome.splits)

lemma choice_Matched:
  "foldr orElse alts noAlternative ts = Matched s rest \<Longrightarrow>
     \<exists>i<length alts. (alts ! i) ts = Matched s rest \<and> (\<forall>j<i. \<exists>at. (alts ! j) ts = Failed at)"
proof (induction alts)
  case Nil
  then show ?case by (simp add: noAlternative_Matched)
next
  case (Cons a alts)
  from Cons.prems have "orElse a (foldr orElse alts noAlternative) ts = Matched s rest" by simp
  then consider "a ts = Matched s rest"
    | at where "a ts = Failed at" "foldr orElse alts noAlternative ts = Matched s rest"
    by (auto dest: orElse_Matched)
  then show ?case
  proof cases
    case 1
    then have "((a # alts) ! 0) ts = Matched s rest \<and> (\<forall>j<0. \<exists>at. ((a # alts) ! j) ts = Failed at)"
      by simp
    then show ?thesis by blast
  next
    case 2
    from Cons.IH[OF 2(2)] obtain i where i: "i < length alts" "(alts ! i) ts = Matched s rest"
      "\<forall>j<i. \<exists>at. (alts ! j) ts = Failed at" by blast
    have "\<forall>j<Suc i. \<exists>at. ((a # alts) ! j) ts = Failed at"
    proof (intro allI impI)
      fix j assume "j < Suc i"
      then show "\<exists>at. ((a # alts) ! j) ts = Failed at"
        using 2(1) i(3) by (cases j) auto
    qed
    with i have "Suc i < length (a # alts) \<and> ((a # alts) ! Suc i) ts = Matched s rest
        \<and> (\<forall>j<Suc i. \<exists>at. ((a # alts) ! j) ts = Failed at)" by simp
    then show ?thesis by blast
  qed
qed

text \<open>
  Claim C8. A statement that the rule \<open>Stmt\<close> produces has exactly one of its ten arms
  Return, If, For, Switch, Block, VarDecl, FuncDecl, ClassDecl, EnumDecl, Expression
  populated. If the populated arm is Expression, then each of the nine other alternatives
  was tried on the same tokens and failed, the expression grammar matched these tokens, and
  the nine other arms are nil.
\<close>

theorem Stmt_expression_is_last_alternative:
  "(parseStmt pE pR (Suc n) ts = Matched s rest \<longrightarrow> Stmt_arms s = 1)
   \<and> (parseStmt pE pR (Suc n) ts = Matched s rest \<and> Stmt_Expression s \<noteq> None \<longrightarrow>
        (\<exists>at. parseReturnStmt pE ts = Failed at)
        \<and> (\<exists>at. parseIfStmt pE pR n ts = Failed at)
        \<and> (\<exists>at. parseForStmt pE pR n ts = Failed at)
        \<and> (\<exists>at. parseSwitchStmt pE pR n ts = Failed at)
        \<and> (\<exists>at. parseBlock pE pR n ts = Failed at)
        \<and> (\<exists>at. parseVarDecl pE pR ts = Failed at)
        \<and> (\<exists>at. parseFuncDecl pE pR n ts = Failed at)
        \<and> (\<exists>at. parseClassDecl pE pR n ts = Failed at)
        \<and> (\<exists>at. parseEnumDecl pE pR n ts = Failed at)
        \<and> (\<exists>e. pE ts = Matched e rest \<and> Stmt_Expression s = Some e)
        \<and> Stmt_Return s = None \<and> Stmt_If s = None \<and> Stmt_For s = None
        \<and> Stmt_Switch s = None \<and> Stmt_Block s = None \<and> Stmt_VarDecl s = None
        \<and> Stmt_FuncDecl s = None \<and> Stmt_ClassDecl s = None \<and> Stmt_EnumDecl s = None)"
proof (cases "parseStmt pE pR (Suc n) ts = Matched s rest")
  case False
  then show ?thesis by simp
next
  case True
  define pos where "pos = (case ts of [] \<Rightarrow> Position [] 0 0 0 | t # rest \<Rightarrow> Token_Pos t)"
  define alts :: "Stmt parser list" where "alts =
     [bindP (parseReturnStmt pE) (\<lambda>x.
        ret (Stmt pos (Some x) None None None None None None None None None)),
      bindP (parseIfStmt pE pR n) (\<lambda>x.
        ret (Stmt pos None (Some x) None None None None None None None None)),
      bindP (parseForStmt pE pR n) (\<lambda>x.
        ret (Stmt pos None None (Some x) None None None None None None None)),
      bindP (parseSwitchStmt pE pR n) (\<lambda>x.
        ret (Stmt pos None None None (Some x) None None None None None None)),
      bindP (parseBlock pE pR n) (\<lambda>x.
        ret (Stmt pos None None None None (Some x) None None None None None)),
      bindP (parseVarDecl pE pR) (\<lambda>x.
        ret (Stmt pos None None None None None (Some x) None None None None)),
      bindP (parseFuncDecl pE pR n) (\<lambda>x.
        ret (Stmt pos None None None None None None (Some x) None None None)),
      bindP (parseClassDecl pE pR n) (\<lambda>x.
        ret (Stmt pos None None None None None None None (Some x) None None)),
      bindP (parseEnumDecl pE pR n) (\<lambda>x.
        ret (Stmt pos None None None None None None None None (Some x) None)),
      bindP pE (\<lambda>x.
        ret (Stmt pos None None None None None None None None None (Some x)))]"
  have len: "length alts = 10" by (simp add: alts_def)
  from True have "foldr orElse alts noAlternative ts = Matched s rest"
    by (simp add: withPos_def alts_def pos_def)
  from choice_Matched[OF this] len obtain i where i: "i < 10"
    and hit: "(alts ! i) ts = Matched s rest"
    and before: "\<forall>j<i. \<exists>at. (alts ! j) ts = Failed at" by auto
  from i have "i = 0 \<or> i = 1 \<or> i = 2 \<or> i = 3 \<or> i = 4 \<or> i = 5 \<or> i = 6
    \<or> i = 7 \<or> i = 8 \<or> i = 9" by arith
  then consider "i = 0" | "i = 1" | "i = 2" | "i = 3" | "i = 4" | "i = 5" | "i = 6"
    | "i = 7" | "i = 8" | "i = 9" by blast
  then have shape: "Stmt_arms s = 1 \<and> (Stmt_Expression s \<noteq> None \<longrightarrow> i = 9)
      \<and> (i = 9 \<longrightarrow> (\<exists>e. pE ts = Matched e rest
            \<and> s = Stmt pos None None None None None None None None None (Some e)))"
  proof cases
    case 1
    have "alts ! 0 = bindP (parseReturnStmt pE) (\<lambda>x.
        ret (Stmt pos (Some x) None None None None None None None None None))"
      by (simp add: alts_def)
    with hit 1 obtain x where x: "(parseReturnStmt pE) ts = Matched x rest"
      and "s = Stmt pos (Some x) None None None None None None None None None"
      by (auto dest: arm_hit)
    then show ?thesis using 1 by (simp add: Stmt_arms_def)
  next
    case 2
    have "alts ! 1 = bindP (parseIfStmt pE pR n) (\<lambda>x.
        ret (Stmt pos None (Some x) None None None None None None None None))"
      by (simp add: alts_def)
    with hit 2 obtain x where x: "(parseIfStmt pE pR n) ts = Matched x rest"
      and "s = Stmt pos None (Some x) None None None None None None None None"
      by (auto dest: arm_hit)
    then show ?thesis using 2 by (simp add: Stmt_arms_def)
  next
    case 3
    have "alts ! 2 = bindP (parseForStmt pE pR n) (\<lambda>x.
        ret (Stmt pos None None (Some x) None None None None None None None))"
      by (simp add: alts_def)
    with hit 3 obtain x where x: "(parseForStmt pE pR n) ts = Matched x rest"
      and "s = Stmt pos None None (Some x) None None None None None None None"
      by (auto dest: arm_hit)
    then show ?thesis using 3 by (simp add: Stmt_arms_def)
  next
    case 4
    have "alts ! 3 = bindP (parseSwitchStmt pE pR n) (\<lambda>x.
        ret (Stmt pos None None None (Some x) None None None None None None))"
      by (simp add: alts_def)
    with hit 4 obtain x where x: "(parseSwitchStmt pE pR n) ts = Matched x rest"
      and "s = Stmt pos None None None (Some x) None None None None None None"
      by (auto dest: arm_hit)
    then show ?thesis using 4 by (simp add: Stmt_arms_def)
  next
    case 5
    have "alts ! 4 = bindP (parseBlock pE pR n) (\<lambda>x.
        ret (Stmt pos None None None None (Some x) None None None None None))"
      by (simp add: alts_def)
    with hit 5 obtain x where x: "(parseBlock pE pR n) ts = Matched x rest"
      and "s = Stmt pos None None None None (Some x) None None None None None"
      by (auto dest: arm_hit)
    then show ?thesis using 5 by (simp add: Stmt_arms_def)
  next
    case 6
    have "alts ! 5 = bindP (parseVarDecl pE pR) (\<lambda>x.
        ret (Stmt pos None None None None None (Some x) None None None None))"
      by (simp add: alts_def)
    with hit 6 obtain x where x: "(parseVarDecl pE pR) ts = Matched x rest"
      and "s = Stmt pos None None None None None (Some x) None None None None"
      by (auto dest: arm_hit)
    then show ?thesis using 6 by (simp add: Stmt_arms_def)
  next
    case 7
    have "alts ! 6 = bindP (parseFuncDecl pE pR n) (\<lambda>x.
        ret (Stmt pos None None None None None None (Some x) None None None))"
      by (simp add: alts_def)
    with hit 7 obtain x where x: "(parseFuncDecl pE pR n) ts = Matched x rest"
      and "s = Stmt pos None None None None None None (Some x) None None None"
      by (auto dest: arm_hit)
    then show ?thesis using 7 by (simp add: Stmt_arms_def)
  next
    case 8
    have "alts ! 7 = bindP (parseClassDecl pE pR n) (\<lambda>x.
        ret (Stmt pos None None None None None None None (Some x) None None))"
      by (simp add: alts_def)
    with hit 8 obtain x where x: "(parseClassDecl pE pR n) ts = Matched x rest"
      and "s = Stmt pos None None None None None None None (Some x) None None"
      by (auto dest: arm_hit)
    then show ?thesis using 8 by (simp add: Stmt_arms_def)
  next
    case 9
    have "alts ! 8 = bindP (parseEnumDecl pE pR n) (\<lambda>x.
        ret (Stmt pos None None None None None None None None (Some x) None))"
      by (simp add: alts_def)
    with hit 9 obtain x where x: "(parseEnumDecl pE pR n) ts = Matched x rest"
      and "s = Stmt pos None None None None None None None None (Some x) None"
      by (auto dest: arm_hit)
    then show ?thesis using 9 by (simp add: Stmt_arms_def)
  next
    case 10
    have "alts ! 9 = bindP (pE) (\<lambda>x.
        ret (Stmt pos None None None None None None None None None (Some x)))"
      by (simp add: alts_def)
    with hit 10 obtain x where x: "(pE) ts = Matched x rest"
      and "s = Stmt pos None None None None None None None None None (Some x)"
      by (auto dest: arm_hit)
    then show ?thesis using 10 by (simp add: Stmt_arms_def)
  qed
  have last: "(\<exists>at. parseReturnStmt pE ts = Failed at)
        \<and> (\<exists>at. parseIfStmt pE pR n ts = Failed at)
        \<and> (\<exists>at. parseForStmt pE pR n ts = Failed at)
        \<and> (\<exists>at. parseSwitchStmt pE pR n ts = Failed at)
        \<and> (\<exists>at. parseBlock pE pR n ts = Failed at)
        \<and> (\<exists>at. parseVarDecl pE pR ts = Failed at)
        \<and> (\<exists>at. parseFuncDecl pE pR n ts = Failed at)
        \<and> (\<exists>at. parseClassDecl pE pR n ts = Failed at)
        \<and> (\<exists>at. parseEnumDecl pE pR n ts = Failed at)" if "i = 9"
  proof -
    from before that have f: "\<exists>at. (alts ! j) ts = Failed at" if "j < 9" for j
      using \<open>j < 9\<close> by simp
    have f0: "\<exists>at. parseReturnStmt pE ts = Failed at"
      using f[of 0] by (simp add: alts_def arm_Failed)
    have f1: "\<exists>at. parseIfStmt pE pR n ts = Failed at"
      using f[of 1] by (simp add: alts_def arm_Failed)
    have f2: "\<exists>at. parseForStmt pE pR n ts = Failed at"
      using f[of 2] by (simp add: alts_def arm_Failed)
    have f3: "\<exists>at. parseSwitchStmt pE pR n ts = Failed at"
      using f[of 3] by (simp add: alts_def arm_Failed)
    have f4: "\<exists>at. parseBlock pE pR n ts = Failed at"
      using f[of 4] by (simp add: alts_def arm_Failed)
    have f5: "\<exists>at. parseVarDecl pE pR ts = Failed at"
      using f[of 5] by (simp add: alts_def arm_Failed)
    have f6: "\<exists>at. parseFuncDecl pE pR n ts = Failed at"
      using f[of 6] by (simp add: alts_def arm_Failed)
    have f7: "\<exists>at. parseClassDecl pE pR n ts = Failed at"
      using f[of 7] by (simp add: alts_def arm_Failed)
    have f8: "\<exists>at. parseEnumDecl pE pR n ts = Failed at"
      using f[of 8] by (simp add: alts_def arm_Failed)
    from f0 f1 f2 f3 f4 f5 f6 f7 f8 show ?thesis by blast
  qed
  have first: "parseStmt pE pR (Suc n) ts = Matched s rest \<longrightarrow> Stmt_arms s = 1"
    using shape by blast
  have second: "(\<exists>at. parseReturnStmt pE ts = Failed at)
        \<and> (\<exists>at. parseIfStmt pE pR n ts = Failed at)
        \<and> (\<exists>at. parseForStmt pE pR n ts = Failed at)
        \<and> (\<exists>at. parseSwitchStmt pE pR n ts = Failed at)
        \<and> (\<exists>at. parseBlock pE pR n ts = Failed at)
        \<and> (\<exists>at. parseVarDecl pE pR ts = Failed at)
        \<and> (\<exists>at. parseFuncDecl pE pR n ts = Failed at)
        \<and> (\<exists>at. parseClassDecl pE pR n ts = Failed at)
        \<and> (\<exists>at. parseEnumDecl pE pR n ts = Failed at)
        \<and> (\<exists>e. pE ts = Matched e rest \<and> Stmt_Expression s = Some e)
        \<and> Stmt_Return s = None \<and> Stmt_If s = None \<and> Stmt_For s = None
        \<and> Stmt_Switch s = None \<and> Stmt_Block s = None \<and> Stmt_VarDecl s = None
        \<and> Stmt_FuncDecl s = None \<and> Stmt_ClassDecl s = None \<and> Stmt_EnumDecl s = None"
    if "Stmt_Expression s \<noteq> None"
  proof -
    from that have i9: "i = 9" using shape by blast
    with shape obtain e where e: "pE ts = Matched e rest"
      and s: "s = Stmt pos None None None None None None None None None (Some e)" by blast
    from last[OF i9] e s show ?thesis by simp
  qed
  from first second show ?thesis by blast
qed

theorem Stmt_expression_is_last_alternative_witness:
  "parseStmt identifierExpr noAlternative (Suc (Suc 0))
      [Token Ident ''x'' (Position [] 0 1 1), Token EOF [] (Position [] 1 1 2)]
     = Matched (Stmt (Position [] 0 1 1) None None None None None None None None None
          (Some (ExprNode KExpr (Position [] 0 1 1) ''x'' [])))
         [Token EOF [] (Position [] 1 1 2)]
   \<and> (\<exists>at. parseReturnStmt identifierExpr
         [Token Ident ''x'' (Position [] 0 1 1), Token EOF [] (Position [] 1 1 2)] = Failed at)
   \<and> (\<exists>at. parseVarDecl identifierExpr noAlternative
         [Token Ident ''x'' (Position [] 0 1 1), Token EOF [] (Position [] 1 1 2)] = Failed at)
   \<and> (\<exists>at. parseEnumDecl identifierExpr noAlternative (Suc 0)
         [Token Ident ''x'' (Position [] 0 1 1), Token EOF [] (Position [] 1 1 2)] = Failed at)"
proof -
  have m: "parseStmt identifierExpr noAlternative (Suc (Suc 0))
      [Token Ident ''x'' (Position [] 0 1 1), Token EOF [] (Position [] 1 1 2)]
     = Matched (Stmt (Position [] 0 1 1) None None None None None None None None None
          (Some (ExprNode KExpr (Position [] 0 1 1) ''x'' [])))
         [Token EOF [] (Position [] 1 1 2)]"
    by (simp add: parse_defs identifierExpr_def)
  have v: "Stmt_Expression (Stmt (Position [] 0 1 1) None None None None None None None None None
          (Some (ExprNode KExpr (Position [] 0 1 1) ''x'' []))) \<noteq> None" by simp
  from Stmt_expression_is_last_alternative [of identifierExpr noAlternative "Suc 0"
      "[Token Ident ''x'' (Position [] 0 1 1), Token EOF [] (Position [] 1 1 2)]"
      "Stmt (Position [] 0 1 1) None None None None None None None None None
          (Some (ExprNode KExpr (Position [] 0 1 1) ''x'' []))"
      "[Token EOF [] (Position [] 1 1 2)]"] m v
  show ?thesis by blast
qed

subsection \<open>The entry points\<close>

text \<open>
  Claim C10. \<open>ParseString\<close> and \<open>Parse\<close> return a non-nil pointer to a tree, whatever the
  library call does with the input, together with the error of that call. In particular,
  when the library call returns an error and leaves the tree untouched, the caller receives
  that error and a pointer to the empty tree.
\<close>

theorem entry_points_return_non_nil_AST:
  "(\<exists>ast. ParseString_with p s = (Some ast, snd (p s emptyAST)))
   \<and> (\<exists>ast. Parse_with q r = (Some ast, snd (q r emptyAST)))
   \<and> ParseString_with (\<lambda>s ast. (ast, Some e)) s = (Some emptyAST, Some e)
   \<and> Parse_with (\<lambda>r ast. (ast, Some e)) r = (Some emptyAST, Some e)"
  by (simp add: ParseString_with_def Parse_with_def split: prod.splits)
end
